theory Spec2Isabelle
  imports Main "HOL-Library.Word"
begin

unbundle bit_operations_syntax

section \<open>Control core of the InvenSense ICM-426xx driver\<close>

text \<open>
  A shallow embedding of \<^verbatim>\<open>drivers/iio/imu/inv_icm42600/inv_icm42600_core.c\<close>.
  Every function takes the driver state \<open>st\<close> (the C \<^verbatim>\<open>struct inv_icm42600_state\<close>)
  and the world \<open>w\<close> (the register bus, the regulator, the clock, the IIO buffer) and
  returns the C return value together with the updated state and world.  The model is
  sequential: \<^verbatim>\<open>mutex_lock\<close>/\<^verbatim>\<open>mutex_unlock\<close> and the \<^verbatim>\<open>dev_err\<close> log lines have no
  counterpart in it.
\<close>

subsection \<open>Machine types\<close>

type_synonym u8 = "8 word"
type_synonym s16 = "16 word"
type_synonym u32 = "32 word"
type_synonym u64 = "64 word"

subsection \<open>The header \<^verbatim>\<open>inv_icm42600.h\<close>\<close>

text \<open>
  The header that defines the register addresses, the field macros, the enumeration
  constants and the timing constants is not part of the sources at hand, so all of them
  are parameters: one record field per macro or enumerator the C file uses, under the
  name the C file uses.  Function-like macros are functions from the C \<^verbatim>\<open>int\<close> argument to
  the \<^verbatim>\<open>unsigned int\<close> register value.
\<close>

record inv_icm42600_regs =
  INV_ICM42670_REG_PWR_MGMT0 :: u32
  INV_ICM42600_REG_ACCEL_CONFIG0 :: u32
  INV_ICM42600_REG_GYRO_CONFIG0 :: u32
  INV_ICM42600_REG_GYRO_ACCEL_CONFIG0 :: u32
  INV_ICM42670_REG_GYRO_CONFIG0 :: u32
  INV_ICM42670_REG_ACCEL_CONFIG0 :: u32
  INV_ICM42600_REG_WHOAMI :: u32
  INV_ICM42670_REG_SIGNAL_PATH_RESET :: u32
  INV_ICM42670_REG_INT_STATUS :: u32
  INV_ICM42670_REG_INTF_CONFIG0 :: u32
  INV_ICM42670_REG_INT_STATUS_DRDY :: u32
  INV_ICM42670_REG_ACCEL_DATA_X :: u32
  INV_ICM42600_REG_FIFO_CONFIG :: u32

record inv_icm42600_fields =
  INV_ICM42600_PWR_MGMT0_GYRO :: "int \<Rightarrow> u32"
  INV_ICM42600_PWR_MGMT0_ACCEL :: "int \<Rightarrow> u32"
  INV_ICM42600_ACCEL_CONFIG0_FS :: "int \<Rightarrow> u32"
  INV_ICM42600_ACCEL_CONFIG0_ODR :: "int \<Rightarrow> u32"
  INV_ICM42600_GYRO_CONFIG0_FS :: "int \<Rightarrow> u32"
  INV_ICM42600_GYRO_CONFIG0_ODR :: "int \<Rightarrow> u32"
  INV_ICM42600_GYRO_ACCEL_CONFIG0_ACCEL_FILT :: "int \<Rightarrow> u32"
  INV_ICM42600_GYRO_ACCEL_CONFIG0_GYRO_FILT :: "int \<Rightarrow> u32"
  INV_ICM42670_GYRO_CONFIG0_FS :: "int \<Rightarrow> u32"
  INV_ICM42670_GYRO_CONFIG0_ODR :: "int \<Rightarrow> u32"
  INV_ICM42670_ACCEL_CONFIG0_FS :: "int \<Rightarrow> u32"
  INV_ICM42670_ACCEL_CONFIG0_ODR :: "int \<Rightarrow> u32"
  INV_ICM42670_SIGNAL_PATH_RESET_SOFT_RESET_DEVICE_CONFIG :: u32
  INV_ICM42600_INT_STATUS_RESET_DONE :: u32
  INV_ICM42600_INTF_CONFIG0_SENSOR_DATA_ENDIAN :: u32
  INV_ICM42600_FIFO_CONFIG_BYPASS :: u32
  INV_ICM42600_FIFO_CONFIG_STREAM :: u32

record inv_icm42600_enums =
  INV_ICM42600_SENSOR_MODE_OFF :: int
  INV_ICM42600_SENSOR_MODE_LOW_NOISE :: int
  INV_ICM42600_GYRO_FS_2000DPS :: int
  INV_ICM42600_ACCEL_FS_16G :: int
  INV_ICM42600_ODR_50HZ :: int
  INV_ICM42670_ODR_200HZ :: int
  INV_ICM42600_FILTER_BW_ODR_DIV_2 :: int
  INV_ICM42600_WHOAMI_ICM42600 :: u8
  INV_ICM42600_WHOAMI_ICM42602 :: u8
  INV_ICM42600_WHOAMI_ICM42605 :: u8
  INV_ICM42600_WHOAMI_ICM42622 :: u8
  INV_ICM42600_WHOAMI_ICM42631 :: u8
  INV_ICM42600_WHOAMI_ICM42670 :: u8

text \<open>The timing constants, in milliseconds; they are compared with an \<^verbatim>\<open>unsigned int\<close>.\<close>

record inv_icm42600_times =
  INV_ICM42600_TEMP_STARTUP_TIME_MS :: nat
  INV_ICM42600_ACCEL_STARTUP_TIME_MS :: nat
  INV_ICM42600_GYRO_STARTUP_TIME_MS :: nat
  INV_ICM42600_GYRO_STOP_TIME_MS :: nat
  INV_ICM42600_RESET_TIME_MS :: nat

record inv_icm42600_h =
  h_regs :: inv_icm42600_regs
  h_fields :: inv_icm42600_fields
  h_enums :: inv_icm42600_enums
  h_times :: inv_icm42600_times

text \<open>\<^verbatim>\<open>ENODEV\<close> of the kernel's \<^verbatim>\<open>errno-base.h\<close>.\<close>

definition ENODEV :: int where
  "ENODEV = 19"

subsection \<open>The driver state\<close>

text \<open>
  \<^verbatim>\<open>struct inv_icm42600_sensor_conf\<close>: four C \<^verbatim>\<open>int\<close>s, a negative value standing for
  ``not given''.  The field \<^verbatim>\<open>filter\<close> is \<open>filter_bw\<close> here.
\<close>

record inv_icm42600_sensor_conf =
  mode :: int
  fs :: int
  odr :: int
  filter_bw :: int

record inv_icm42600_conf =
  gyro :: inv_icm42600_sensor_conf
  accel :: inv_icm42600_sensor_conf
  temp_en :: bool

text \<open>\<^verbatim>\<open>st->suspended\<close> and \<^verbatim>\<open>st->timestamp\<close>.\<close>

record inv_icm42600_suspended =
  sus_gyro :: int
  sus_accel :: int
  sus_temp :: bool

record inv_icm42600_timestamp =
  ts_gyro :: u64
  ts_accel :: u64

text \<open>
  The chips of the table \<^verbatim>\<open>inv_icm42600_hw\<close>; \<^verbatim>\<open>inv_icm42600_core_probe\<close> refuses
  \<^verbatim>\<open>INV_CHIP_INVALID\<close> and \<^verbatim>\<open>INV_CHIP_NB\<close> before a state exists.
\<close>

datatype inv_icm42600_chip =
  INV_CHIP_ICM42600 | INV_CHIP_ICM42602 | INV_CHIP_ICM42605
| INV_CHIP_ICM42622 | INV_CHIP_ICM42631 | INV_CHIP_ICM42670

text \<open>
  \<^verbatim>\<open>struct inv_icm42600_state\<close>, the fields this file reads or writes.  \<open>indio_dev\<close> says
  whether the pointer \<^verbatim>\<open>st->indio_dev\<close> is non-null, \<open>fifo_on\<close> is \<^verbatim>\<open>st->fifo.on\<close>.
\<close>

record inv_icm42600_state =
  chip :: inv_icm42600_chip
  name :: "string option"
  conf :: inv_icm42600_conf
  suspended :: inv_icm42600_suspended
  fifo_on :: bool
  timestamp :: inv_icm42600_timestamp
  indio_dev :: bool

subsection \<open>The world: bus, regulator, clock, buffer\<close>

text \<open>The scan the interrupt thread pushes: six channels and the timestamp.\<close>

record scan =
  channels :: "s16 list"
  ts :: u64

datatype regulator = vdd_supply | vddio_supply

datatype event =
  RegWrite u32 u32
| RegRead u32
| RegBulkRead u32 nat
| RegUpdateBits u32 u32 u32
| Usleep_range nat nat
| Msleep nat
| GetTimeNs u64
| PushToBuffers scan
| RegulatorEnable regulator
| RegulatorDisable regulator
| PmRuntimeDisable
| PmRuntimeSetActive
| PmRuntimeEnable

text \<open>
  The world records every call the driver makes, in order, in \<open>trace\<close>.  What the calls
  answer is scripted: \<open>bus_replies\<close> holds, for the regmap calls still to come, the return
  code and the bytes read; \<open>regulator_replies\<close> the return codes of \<^verbatim>\<open>regulator_enable\<close>;
  \<open>clock\<close> the readings of \<^verbatim>\<open>iio_get_time_ns\<close>.  A script that has run out answers
  success, zero bytes and time zero.
\<close>

record world =
  trace :: "event list"
  bus_replies :: "(int \<times> u8 list) list"
  regulator_replies :: "int list"
  clock :: "u64 list"
  pm_suspended :: bool
  buffer_enabled :: bool

definition next_reply :: "world \<Rightarrow> (int \<times> u8 list) \<times> world" where
  "next_reply w =
     (case bus_replies w of
        [] \<Rightarrow> ((0, []), w)
      | r # rs \<Rightarrow> (r, w\<lparr>bus_replies := rs\<rparr>))"

definition emit :: "event \<Rightarrow> world \<Rightarrow> world" where
  "emit e w = w\<lparr>trace := trace w @ [e]\<rparr>"

definition regmap_write :: "world \<Rightarrow> u32 \<Rightarrow> u32 \<Rightarrow> int \<times> world" where
  "regmap_write w reg val =
     (let (r, w1) = next_reply (emit (RegWrite reg val) w) in (fst r, w1))"

text \<open>The registers are eight bits wide (\<^verbatim>\<open>val_bits = 8\<close>): a read yields one byte.\<close>

definition regmap_read :: "world \<Rightarrow> u32 \<Rightarrow> int \<times> u32 \<times> world" where
  "regmap_read w reg =
     (let (r, w1) = next_reply (emit (RegRead reg) w)
      in (fst r, (case snd r of [] \<Rightarrow> 0 | b # _ \<Rightarrow> ucast b), w1))"

definition regmap_bulk_read :: "world \<Rightarrow> u32 \<Rightarrow> nat \<Rightarrow> int \<times> u8 list \<times> world" where
  "regmap_bulk_read w reg len =
     (let (r, w1) = next_reply (emit (RegBulkRead reg len) w)
      in (fst r, take len (snd r @ replicate len 0), w1))"

definition regmap_update_bits :: "world \<Rightarrow> u32 \<Rightarrow> u32 \<Rightarrow> u32 \<Rightarrow> int \<times> world" where
  "regmap_update_bits w reg msk val =
     (let (r, w1) = next_reply (emit (RegUpdateBits reg msk val) w) in (fst r, w1))"

definition usleep_range :: "world \<Rightarrow> nat \<Rightarrow> nat \<Rightarrow> world" where
  "usleep_range w lo hi = emit (Usleep_range lo hi) w"

definition msleep :: "world \<Rightarrow> nat \<Rightarrow> world" where
  "msleep w ms = emit (Msleep ms) w"

definition iio_get_time_ns :: "world \<Rightarrow> u64 \<times> world" where
  "iio_get_time_ns w =
     (case clock w of
        [] \<Rightarrow> (0, emit (GetTimeNs 0) w)
      | t # rest \<Rightarrow> (t, emit (GetTimeNs t) (w\<lparr>clock := rest\<rparr>)))"

definition iio_buffer_enabled :: "world \<Rightarrow> bool" where
  "iio_buffer_enabled w = buffer_enabled w"

definition iio_push_to_buffers :: "world \<Rightarrow> scan \<Rightarrow> world" where
  "iio_push_to_buffers w s = emit (PushToBuffers s) w"

definition regulator_enable :: "world \<Rightarrow> regulator \<Rightarrow> int \<times> world" where
  "regulator_enable w s =
     (case regulator_replies w of
        [] \<Rightarrow> (0, emit (RegulatorEnable s) w)
      | r # rs \<Rightarrow> (r, emit (RegulatorEnable s) (w\<lparr>regulator_replies := rs\<rparr>)))"

text \<open>The driver ignores what \<^verbatim>\<open>regulator_disable\<close> returns on the paths modelled here.\<close>

definition regulator_disable :: "world \<Rightarrow> regulator \<Rightarrow> world" where
  "regulator_disable w s = emit (RegulatorDisable s) w"

definition pm_runtime_suspended :: "world \<Rightarrow> bool" where
  "pm_runtime_suspended w = pm_suspended w"

definition pm_runtime_disable :: "world \<Rightarrow> world" where
  "pm_runtime_disable w = emit PmRuntimeDisable w"

definition pm_runtime_set_active :: "world \<Rightarrow> world" where
  "pm_runtime_set_active w = emit PmRuntimeSetActive (w\<lparr>pm_suspended := False\<rparr>)"

definition pm_runtime_enable :: "world \<Rightarrow> world" where
  "pm_runtime_enable w = emit PmRuntimeEnable w"

subsection \<open>The power-mode register\<close>

text \<open>
  \<^verbatim>\<open>inv_icm42600_set_pwr_mgmt0\<close>.  The out-parameter \<^verbatim>\<open>unsigned int *sleep_ms\<close> is an
  option: \<open>None\<close> is the null pointer, \<open>Some v\<close> a pointer to a cell that holds \<open>v\<close>; the
  result carries the cell after the call.
\<close>

definition inv_icm42600_set_pwr_mgmt0 ::
  "inv_icm42600_h \<Rightarrow> inv_icm42600_state \<Rightarrow> int \<Rightarrow> int \<Rightarrow> bool \<Rightarrow> nat option \<Rightarrow> world
    \<Rightarrow> int \<times> inv_icm42600_state \<times> nat option \<times> world" where
  "inv_icm42600_set_pwr_mgmt0 h st gyro_arg accel_arg temp sleep_ms w =
     (let oldgyro = mode (gyro (conf st));
          oldaccel = mode (accel (conf st));
          oldtemp = temp_en (conf st)
      in
      if gyro_arg = oldgyro \<and> accel_arg = oldaccel \<and> temp = oldtemp then (0, st, sleep_ms, w)
      else
        let val = INV_ICM42600_PWR_MGMT0_GYRO (h_fields h) gyro_arg
                  OR INV_ICM42600_PWR_MGMT0_ACCEL (h_fields h) accel_arg;
            (ret, w1) = regmap_write w (INV_ICM42670_REG_PWR_MGMT0 (h_regs h)) val
        in
        if ret \<noteq> 0 then (ret, st, sleep_ms, w1)
        else
          let st1 = st\<lparr>conf := (conf st)\<lparr>
                      gyro := (gyro (conf st))\<lparr>mode := gyro_arg\<rparr>,
                      accel := (accel (conf st))\<lparr>mode := accel_arg\<rparr>,
                      temp_en := temp\<rparr>\<rparr>;
              sleepval = (0::nat);
              sleepval =
                (if temp \<and> \<not> oldtemp then
                   (if sleepval < INV_ICM42600_TEMP_STARTUP_TIME_MS (h_times h)
                    then INV_ICM42600_TEMP_STARTUP_TIME_MS (h_times h) else sleepval)
                 else sleepval);
              (sleepval, w2) =
                (if accel_arg \<noteq> oldaccel \<and> oldaccel = INV_ICM42600_SENSOR_MODE_OFF (h_enums h) then
                   let w' = usleep_range w1 200 300
                   in (if sleepval < INV_ICM42600_ACCEL_STARTUP_TIME_MS (h_times h)
                       then INV_ICM42600_ACCEL_STARTUP_TIME_MS (h_times h) else sleepval, w')
                 else (sleepval, w1));
              (sleepval, w3) =
                (if gyro_arg \<noteq> oldgyro then
                   (if oldgyro = INV_ICM42600_SENSOR_MODE_OFF (h_enums h) then
                      let w' = usleep_range w2 200 300
                      in (if sleepval < INV_ICM42600_GYRO_STARTUP_TIME_MS (h_times h)
                          then INV_ICM42600_GYRO_STARTUP_TIME_MS (h_times h) else sleepval, w')
                    else if gyro_arg = INV_ICM42600_SENSOR_MODE_OFF (h_enums h) then
                      (if sleepval < INV_ICM42600_GYRO_STOP_TIME_MS (h_times h)
                       then INV_ICM42600_GYRO_STOP_TIME_MS (h_times h) else sleepval, w2)
                    else (sleepval, w2))
                 else (sleepval, w2))
          in
          (case sleep_ms of
             Some _ \<Rightarrow> (0, st1, Some sleepval, w3)
           | None \<Rightarrow> (0, st1, None, if sleepval \<noteq> 0 then msleep w3 sleepval else w3)))"

subsection \<open>Sensor configuration\<close>

text \<open>
  \<^verbatim>\<open>inv_icm42600_set_accel_conf\<close>.  The C function writes through the pointer \<^verbatim>\<open>conf\<close>;
  the model returns the structure as the caller finds it afterwards, third in the result.
  \<^verbatim>\<open>oldconf\<close> points into the state, so each read of it sees the writes made before.
\<close>

definition inv_icm42600_set_accel_conf ::
  "inv_icm42600_h \<Rightarrow> inv_icm42600_state \<Rightarrow> inv_icm42600_sensor_conf \<Rightarrow> nat option \<Rightarrow> world
    \<Rightarrow> int \<times> inv_icm42600_state \<times> inv_icm42600_sensor_conf \<times> nat option \<times> world" where
  "inv_icm42600_set_accel_conf h st conf_arg sleep_ms w =
     (let c = conf_arg;
          c = (if mode c < 0 then c\<lparr>mode := mode (accel (conf st))\<rparr> else c);
          c = (if fs c < 0 then c\<lparr>fs := fs (accel (conf st))\<rparr> else c);
          c = (if odr c < 0 then c\<lparr>odr := odr (accel (conf st))\<rparr> else c);
          c = (if filter_bw c < 0 then c\<lparr>filter_bw := filter_bw (accel (conf st))\<rparr> else c);
          (ret, st1, w1) =
            (if fs c \<noteq> fs (accel (conf st)) \<or> odr c \<noteq> odr (accel (conf st)) then
               let val = INV_ICM42600_ACCEL_CONFIG0_FS (h_fields h) (fs c)
                         OR INV_ICM42600_ACCEL_CONFIG0_ODR (h_fields h) (odr c);
                   (ret, w') = regmap_write w (INV_ICM42600_REG_ACCEL_CONFIG0 (h_regs h)) val
               in if ret \<noteq> 0 then (ret, st, w')
                  else (0, st\<lparr>conf := (conf st)\<lparr>accel :=
                              (accel (conf st))\<lparr>fs := fs c, odr := odr c\<rparr>\<rparr>\<rparr>, w')
             else (0, st, w))
      in
      if ret \<noteq> 0 then (ret, st1, c, sleep_ms, w1)
      else
        let (ret, st2, w2) =
              (if filter_bw c \<noteq> filter_bw (accel (conf st1)) then
                 let val = INV_ICM42600_GYRO_ACCEL_CONFIG0_ACCEL_FILT (h_fields h) (filter_bw c)
                           OR INV_ICM42600_GYRO_ACCEL_CONFIG0_GYRO_FILT (h_fields h)
                                (filter_bw (gyro (conf st1)));
                     (ret, w') =
                       regmap_write w1 (INV_ICM42600_REG_GYRO_ACCEL_CONFIG0 (h_regs h)) val
                 in if ret \<noteq> 0 then (ret, st1, w')
                    else (0, st1\<lparr>conf := (conf st1)\<lparr>accel :=
                                (accel (conf st1))\<lparr>filter_bw := filter_bw c\<rparr>\<rparr>\<rparr>, w')
               else (0, st1, w1))
        in
        if ret \<noteq> 0 then (ret, st2, c, sleep_ms, w2)
        else
          let (ret, st3, sl, w3) =
                inv_icm42600_set_pwr_mgmt0 h st2 (mode (gyro (conf st2))) (mode c)
                  (temp_en (conf st2)) sleep_ms w2
          in (ret, st3, c, sl, w3))"

text \<open>\<^verbatim>\<open>inv_icm42600_set_gyro_conf\<close>, the same for the gyroscope.\<close>

definition inv_icm42600_set_gyro_conf ::
  "inv_icm42600_h \<Rightarrow> inv_icm42600_state \<Rightarrow> inv_icm42600_sensor_conf \<Rightarrow> nat option \<Rightarrow> world
    \<Rightarrow> int \<times> inv_icm42600_state \<times> inv_icm42600_sensor_conf \<times> nat option \<times> world" where
  "inv_icm42600_set_gyro_conf h st conf_arg sleep_ms w =
     (let c = conf_arg;
          c = (if mode c < 0 then c\<lparr>mode := mode (gyro (conf st))\<rparr> else c);
          c = (if fs c < 0 then c\<lparr>fs := fs (gyro (conf st))\<rparr> else c);
          c = (if odr c < 0 then c\<lparr>odr := odr (gyro (conf st))\<rparr> else c);
          c = (if filter_bw c < 0 then c\<lparr>filter_bw := filter_bw (gyro (conf st))\<rparr> else c);
          (ret, st1, w1) =
            (if fs c \<noteq> fs (gyro (conf st)) \<or> odr c \<noteq> odr (gyro (conf st)) then
               let val = INV_ICM42600_GYRO_CONFIG0_FS (h_fields h) (fs c)
                         OR INV_ICM42600_GYRO_CONFIG0_ODR (h_fields h) (odr c);
                   (ret, w') = regmap_write w (INV_ICM42600_REG_GYRO_CONFIG0 (h_regs h)) val
               in if ret \<noteq> 0 then (ret, st, w')
                  else (0, st\<lparr>conf := (conf st)\<lparr>gyro :=
                              (gyro (conf st))\<lparr>fs := fs c, odr := odr c\<rparr>\<rparr>\<rparr>, w')
             else (0, st, w))
      in
      if ret \<noteq> 0 then (ret, st1, c, sleep_ms, w1)
      else
        let (ret, st2, w2) =
              (if filter_bw c \<noteq> filter_bw (gyro (conf st1)) then
                 let val = INV_ICM42600_GYRO_ACCEL_CONFIG0_ACCEL_FILT (h_fields h)
                                (filter_bw (accel (conf st1)))
                           OR INV_ICM42600_GYRO_ACCEL_CONFIG0_GYRO_FILT (h_fields h) (filter_bw c);
                     (ret, w') =
                       regmap_write w1 (INV_ICM42600_REG_GYRO_ACCEL_CONFIG0 (h_regs h)) val
                 in if ret \<noteq> 0 then (ret, st1, w')
                    else (0, st1\<lparr>conf := (conf st1)\<lparr>gyro :=
                                (gyro (conf st1))\<lparr>filter_bw := filter_bw c\<rparr>\<rparr>\<rparr>, w')
               else (0, st1, w1))
        in
        if ret \<noteq> 0 then (ret, st2, c, sleep_ms, w2)
        else
          let (ret, st3, sl, w3) =
                inv_icm42600_set_pwr_mgmt0 h st2 (mode c) (mode (accel (conf st2)))
                  (temp_en (conf st2)) sleep_ms w2
          in (ret, st3, c, sl, w3))"

definition inv_icm42600_set_temp_conf ::
  "inv_icm42600_h \<Rightarrow> inv_icm42600_state \<Rightarrow> bool \<Rightarrow> nat option \<Rightarrow> world
    \<Rightarrow> int \<times> inv_icm42600_state \<times> nat option \<times> world" where
  "inv_icm42600_set_temp_conf h st enable sleep_ms w =
     inv_icm42600_set_pwr_mgmt0 h st (mode (gyro (conf st))) (mode (accel (conf st))) enable
       sleep_ms w"

subsection \<open>Bring-up\<close>

text \<open>\<^verbatim>\<open>inv_icm42600_set_conf\<close>: the three registers, then the stored configuration.\<close>

definition inv_icm42600_set_conf ::
  "inv_icm42600_h \<Rightarrow> inv_icm42600_state \<Rightarrow> inv_icm42600_conf \<Rightarrow> world
    \<Rightarrow> int \<times> inv_icm42600_state \<times> world" where
  "inv_icm42600_set_conf h st conf_arg w =
     (let val = INV_ICM42600_PWR_MGMT0_GYRO (h_fields h) (mode (gyro conf_arg))
                OR INV_ICM42600_PWR_MGMT0_ACCEL (h_fields h) (mode (accel conf_arg));
          (ret, w1) = regmap_write w (INV_ICM42670_REG_PWR_MGMT0 (h_regs h)) val
      in
      if ret \<noteq> 0 then (ret, st, w1)
      else
        let val = INV_ICM42670_GYRO_CONFIG0_FS (h_fields h) (fs (gyro conf_arg))
                  OR INV_ICM42670_GYRO_CONFIG0_ODR (h_fields h) (odr (gyro conf_arg));
            (ret, w2) = regmap_write w1 (INV_ICM42670_REG_GYRO_CONFIG0 (h_regs h)) val
        in
        if ret \<noteq> 0 then (ret, st, w2)
        else
          let val = INV_ICM42670_ACCEL_CONFIG0_FS (h_fields h) (fs (accel conf_arg))
                    OR INV_ICM42670_ACCEL_CONFIG0_ODR (h_fields h) (odr (accel conf_arg));
              (ret, w3) = regmap_write w2 (INV_ICM42670_REG_ACCEL_CONFIG0 (h_regs h)) val
          in
          if ret \<noteq> 0 then (ret, st, w3)
          else (0, st\<lparr>conf := conf_arg\<rparr>, w3))"

text \<open>The table \<^verbatim>\<open>inv_icm42600_hw\<close> and the two default configurations.\<close>

record inv_icm42600_hw_entry =
  whoami :: u8
  hw_name :: string
  hw_conf :: inv_icm42600_conf

definition inv_icm42600_default_conf :: "inv_icm42600_h \<Rightarrow> inv_icm42600_conf" where
  "inv_icm42600_default_conf h =
     \<lparr>gyro = \<lparr>mode = INV_ICM42600_SENSOR_MODE_OFF (h_enums h),
              fs = INV_ICM42600_GYRO_FS_2000DPS (h_enums h),
              odr = INV_ICM42600_ODR_50HZ (h_enums h),
              filter_bw = INV_ICM42600_FILTER_BW_ODR_DIV_2 (h_enums h)\<rparr>,
      accel = \<lparr>mode = INV_ICM42600_SENSOR_MODE_OFF (h_enums h),
               fs = INV_ICM42600_ACCEL_FS_16G (h_enums h),
               odr = INV_ICM42600_ODR_50HZ (h_enums h),
               filter_bw = INV_ICM42600_FILTER_BW_ODR_DIV_2 (h_enums h)\<rparr>,
      temp_en = False\<rparr>"

definition inv_icm42670_default_conf :: "inv_icm42600_h \<Rightarrow> inv_icm42600_conf" where
  "inv_icm42670_default_conf h =
     \<lparr>gyro = \<lparr>mode = INV_ICM42600_SENSOR_MODE_LOW_NOISE (h_enums h),
              fs = INV_ICM42600_GYRO_FS_2000DPS (h_enums h),
              odr = INV_ICM42670_ODR_200HZ (h_enums h),
              filter_bw = INV_ICM42600_FILTER_BW_ODR_DIV_2 (h_enums h)\<rparr>,
      accel = \<lparr>mode = INV_ICM42600_SENSOR_MODE_LOW_NOISE (h_enums h),
               fs = INV_ICM42600_ACCEL_FS_16G (h_enums h),
               odr = INV_ICM42670_ODR_200HZ (h_enums h),
               filter_bw = INV_ICM42600_FILTER_BW_ODR_DIV_2 (h_enums h)\<rparr>,
      temp_en = False\<rparr>"

fun inv_icm42600_hw :: "inv_icm42600_h \<Rightarrow> inv_icm42600_chip \<Rightarrow> inv_icm42600_hw_entry" where
  "inv_icm42600_hw h INV_CHIP_ICM42600 =
     \<lparr>whoami = INV_ICM42600_WHOAMI_ICM42600 (h_enums h), hw_name = ''icm42600'',
      hw_conf = inv_icm42600_default_conf h\<rparr>"
| "inv_icm42600_hw h INV_CHIP_ICM42602 =
     \<lparr>whoami = INV_ICM42600_WHOAMI_ICM42602 (h_enums h), hw_name = ''icm42602'',
      hw_conf = inv_icm42600_default_conf h\<rparr>"
| "inv_icm42600_hw h INV_CHIP_ICM42605 =
     \<lparr>whoami = INV_ICM42600_WHOAMI_ICM42605 (h_enums h), hw_name = ''icm42605'',
      hw_conf = inv_icm42600_default_conf h\<rparr>"
| "inv_icm42600_hw h INV_CHIP_ICM42622 =
     \<lparr>whoami = INV_ICM42600_WHOAMI_ICM42622 (h_enums h), hw_name = ''icm42622'',
      hw_conf = inv_icm42600_default_conf h\<rparr>"
| "inv_icm42600_hw h INV_CHIP_ICM42631 =
     \<lparr>whoami = INV_ICM42600_WHOAMI_ICM42631 (h_enums h), hw_name = ''icm42631'',
      hw_conf = inv_icm42600_default_conf h\<rparr>"
| "inv_icm42600_hw h INV_CHIP_ICM42670 =
     \<lparr>whoami = INV_ICM42600_WHOAMI_ICM42670 (h_enums h), hw_name = ''icm42670'',
      hw_conf = inv_icm42670_default_conf h\<rparr>"

text \<open>
  \<^verbatim>\<open>inv_icm42600_setup\<close>.  The call of \<^verbatim>\<open>bus_setup\<close> is commented out in the source, so the
  callback is no argument here.
\<close>

definition inv_icm42600_setup ::
  "inv_icm42600_h \<Rightarrow> inv_icm42600_state \<Rightarrow> world \<Rightarrow> int \<times> inv_icm42600_state \<times> world" where
  "inv_icm42600_setup h st w =
     (let hw = inv_icm42600_hw h (chip st);
          (ret, val, w1) = regmap_read w (INV_ICM42600_REG_WHOAMI (h_regs h))
      in
      if ret \<noteq> 0 then (ret, st, w1)
      else if val \<noteq> ucast (whoami hw) then (- ENODEV, st, w1)
      else
        let st1 = st\<lparr>name := Some (hw_name hw)\<rparr>;
            (ret, w2) = regmap_write w1 (INV_ICM42670_REG_SIGNAL_PATH_RESET (h_regs h))
                          (INV_ICM42670_SIGNAL_PATH_RESET_SOFT_RESET_DEVICE_CONFIG (h_fields h))
        in
        if ret \<noteq> 0 then (ret, st1, w2)
        else
          let w3 = msleep w2 (INV_ICM42600_RESET_TIME_MS (h_times h));
              (ret, val, w4) = regmap_read w3 (INV_ICM42670_REG_INT_STATUS (h_regs h))
          in
          if ret \<noteq> 0 then (ret, st1, w4)
          else if val AND INV_ICM42600_INT_STATUS_RESET_DONE (h_fields h) = 0
          then (- ENODEV, st1, w4)
          else
            let (ret, w5) = regmap_update_bits w4 (INV_ICM42670_REG_INTF_CONFIG0 (h_regs h))
                              (INV_ICM42600_INTF_CONFIG0_SENSOR_DATA_ENDIAN (h_fields h)) 0
            in
            if ret \<noteq> 0 then (ret, st1, w5)
            else inv_icm42600_set_conf h st1 (hw_conf hw) w5)"

subsection \<open>The interrupt\<close>

datatype irqreturn = IRQ_NONE | IRQ_HANDLED | IRQ_WAKE_THREAD

text \<open>\<^verbatim>\<open>inv_icm42600_irq_timestamp\<close>, the primary handler: two readings of the clock.\<close>

definition inv_icm42600_irq_timestamp ::
  "inv_icm42600_state \<Rightarrow> world \<Rightarrow> irqreturn \<times> inv_icm42600_state \<times> world" where
  "inv_icm42600_irq_timestamp st w =
     (let (t, w1) = iio_get_time_ns w;
          st1 = st\<lparr>timestamp := (timestamp st)\<lparr>ts_gyro := t\<rparr>\<rparr>;
          (t, w2) = iio_get_time_ns w1;
          st2 = st1\<lparr>timestamp := (timestamp st1)\<lparr>ts_accel := t\<rparr>\<rparr>
      in (IRQ_WAKE_THREAD, st2, w2))"

text \<open>
  One sample of the burst: \<^verbatim>\<open>((int16_t)data[i]) | (((int16_t)data[i + 1]) << 8)\<close>, stored
  into an \<^verbatim>\<open>int16_t\<close>.
\<close>

definition sample16 :: "u8 list \<Rightarrow> nat \<Rightarrow> s16" where
  "sample16 data i = ucast (data ! i) OR push_bit 8 (ucast (data ! (i + 1)))"

text \<open>
  \<^verbatim>\<open>inv_icm42600_irq_handler\<close>, the thread.  \<^verbatim>\<open>regmap_bulk_read\<close> yields the twelve bytes
  asked for, so every index below is in range.
\<close>

definition inv_icm42600_irq_handler ::
  "inv_icm42600_h \<Rightarrow> inv_icm42600_state \<Rightarrow> world \<Rightarrow> irqreturn \<times> inv_icm42600_state \<times> world" where
  "inv_icm42600_irq_handler h st w =
     (let timestamp_v = ts_accel (timestamp st);
          (ret, status, w1) = regmap_read w (INV_ICM42670_REG_INT_STATUS_DRDY (h_regs h))
      in
      if ret \<noteq> 0 then (IRQ_HANDLED, st, w1)
      else if status \<noteq> 0 then
        let (ret, data, w2) = regmap_bulk_read w1 (INV_ICM42670_REG_ACCEL_DATA_X (h_regs h)) 12
        in
        if ret \<noteq> 0 then (IRQ_HANDLED, st, w2)
        else
          let accel_data = [sample16 data 0, sample16 data 2, sample16 data 4];
              gyro_data = [sample16 data 6, sample16 data 8, sample16 data 10]
          in
          if indio_dev st \<and> iio_buffer_enabled w2 then
            let scan_v = \<lparr>channels = [accel_data ! 0, accel_data ! 1, accel_data ! 2,
                                       gyro_data ! 0, gyro_data ! 1, gyro_data ! 2],
                          ts = timestamp_v\<rparr>
            in (IRQ_HANDLED, st, iio_push_to_buffers w2 scan_v)
          else (IRQ_HANDLED, st, w2)
      else (IRQ_HANDLED, st, w1))"

text \<open>
  One interrupt, as \<^verbatim>\<open>devm_request_threaded_irq\<close> in \<^verbatim>\<open>inv_icm42600_irq_init\<close> sets it up: the
  primary handler runs, and the thread runs after it when the primary handler returned
  \<^verbatim>\<open>IRQ_WAKE_THREAD\<close>.
\<close>

definition irq_event ::
  "inv_icm42600_h \<Rightarrow> inv_icm42600_state \<Rightarrow> world \<Rightarrow> irqreturn \<times> inv_icm42600_state \<times> world" where
  "irq_event h st w =
     (let (r, st1, w1) = inv_icm42600_irq_timestamp st w
      in if r = IRQ_WAKE_THREAD then inv_icm42600_irq_handler h st1 w1 else (r, st1, w1))"

subsection \<open>Power management\<close>

definition inv_icm42600_enable_regulator_vddio :: "world \<Rightarrow> int \<times> world" where
  "inv_icm42600_enable_regulator_vddio w =
     (let (ret, w1) = regulator_enable w vddio_supply
      in if ret \<noteq> 0 then (ret, w1) else (0, usleep_range w1 3000 4000))"

text \<open>\<^verbatim>\<open>inv_icm42600_suspend\<close>.\<close>

definition inv_icm42600_suspend ::
  "inv_icm42600_h \<Rightarrow> inv_icm42600_state \<Rightarrow> world \<Rightarrow> int \<times> inv_icm42600_state \<times> world" where
  "inv_icm42600_suspend h st w =
     (let st1 = st\<lparr>suspended := (suspended st)\<lparr>
                  sus_gyro := mode (gyro (conf st)),
                  sus_accel := mode (accel (conf st)),
                  sus_temp := temp_en (conf st)\<rparr>\<rparr>
      in
      if pm_runtime_suspended w then (0, st1, w)
      else
        let (ret, w1) =
              (if fifo_on st1 then
                 regmap_write w (INV_ICM42600_REG_FIFO_CONFIG (h_regs h))
                   (INV_ICM42600_FIFO_CONFIG_BYPASS (h_fields h))
               else (0, w))
        in
        if ret \<noteq> 0 then (ret, st1, w1)
        else
          let (ret, st2, sl, w2) =
                inv_icm42600_set_pwr_mgmt0 h st1 (INV_ICM42600_SENSOR_MODE_OFF (h_enums h))
                  (INV_ICM42600_SENSOR_MODE_OFF (h_enums h)) False None w1
          in
          if ret \<noteq> 0 then (ret, st2, w2)
          else (ret, st2, regulator_disable w2 vddio_supply))"

text \<open>\<^verbatim>\<open>inv_icm42600_resume\<close>.\<close>

definition inv_icm42600_resume ::
  "inv_icm42600_h \<Rightarrow> inv_icm42600_state \<Rightarrow> world \<Rightarrow> int \<times> inv_icm42600_state \<times> world" where
  "inv_icm42600_resume h st w =
     (let (ret, w1) = inv_icm42600_enable_regulator_vddio w
      in
      if ret \<noteq> 0 then (ret, st, w1)
      else
        let w2 = pm_runtime_enable (pm_runtime_set_active (pm_runtime_disable w1));
            (ret, st1, sl, w3) =
              inv_icm42600_set_pwr_mgmt0 h st (sus_gyro (suspended st))
                (sus_accel (suspended st)) (sus_temp (suspended st)) None w2
        in
        if ret \<noteq> 0 then (ret, st1, w3)
        else if fifo_on st1 then
          let (ret, w4) = regmap_write w3 (INV_ICM42600_REG_FIFO_CONFIG (h_regs h))
                            (INV_ICM42600_FIFO_CONFIG_STREAM (h_fields h))
          in (ret, st1, w4)
        else (ret, st1, w3))"

text \<open>\<^verbatim>\<open>inv_icm42600_runtime_suspend\<close> and \<^verbatim>\<open>inv_icm42600_runtime_resume\<close>.\<close>

definition inv_icm42600_runtime_suspend ::
  "inv_icm42600_h \<Rightarrow> inv_icm42600_state \<Rightarrow> world \<Rightarrow> int \<times> inv_icm42600_state \<times> world" where
  "inv_icm42600_runtime_suspend h st w =
     (let (ret, st1, sl, w1) =
            inv_icm42600_set_pwr_mgmt0 h st (INV_ICM42600_SENSOR_MODE_OFF (h_enums h))
              (INV_ICM42600_SENSOR_MODE_OFF (h_enums h)) False None w
      in if ret \<noteq> 0 then (ret, st1, w1) else (ret, st1, regulator_disable w1 vddio_supply))"

definition inv_icm42600_runtime_resume ::
  "inv_icm42600_state \<Rightarrow> world \<Rightarrow> int \<times> inv_icm42600_state \<times> world" where
  "inv_icm42600_runtime_resume st w =
     (let (ret, w1) = inv_icm42600_enable_regulator_vddio w in (ret, st, w1))"

subsection \<open>Sample values of the header, for evaluation\<close>

text \<open>
  A header to evaluate the model at: mode and rate fields by shifts, distinct register
  addresses, non-zero delays.  No theorem below depends on these values except the
  evaluations that name \<open>sample_h\<close>.
\<close>

definition sample_h :: inv_icm42600_h where
  "sample_h =
     \<lparr>h_regs = \<lparr>INV_ICM42670_REG_PWR_MGMT0 = 0x1F,
                 INV_ICM42600_REG_ACCEL_CONFIG0 = 0x50,
                 INV_ICM42600_REG_GYRO_CONFIG0 = 0x4F,
                 INV_ICM42600_REG_GYRO_ACCEL_CONFIG0 = 0x52,
                 INV_ICM42670_REG_GYRO_CONFIG0 = 0x20,
                 INV_ICM42670_REG_ACCEL_CONFIG0 = 0x21,
                 INV_ICM42600_REG_WHOAMI = 0x75,
                 INV_ICM42670_REG_SIGNAL_PATH_RESET = 0x02,
                 INV_ICM42670_REG_INT_STATUS = 0x3A,
                 INV_ICM42670_REG_INTF_CONFIG0 = 0x35,
                 INV_ICM42670_REG_INT_STATUS_DRDY = 0x39,
                 INV_ICM42670_REG_ACCEL_DATA_X = 0x0B,
                 INV_ICM42600_REG_FIFO_CONFIG = 0x16\<rparr>,
      h_fields = \<lparr>INV_ICM42600_PWR_MGMT0_GYRO = (\<lambda>x. push_bit 2 (word_of_int x AND 3)),
                   INV_ICM42600_PWR_MGMT0_ACCEL = (\<lambda>x. word_of_int x AND 3),
                   INV_ICM42600_ACCEL_CONFIG0_FS = (\<lambda>x. push_bit 5 (word_of_int x AND 7)),
                   INV_ICM42600_ACCEL_CONFIG0_ODR = (\<lambda>x. word_of_int x AND 15),
                   INV_ICM42600_GYRO_CONFIG0_FS = (\<lambda>x. push_bit 5 (word_of_int x AND 7)),
                   INV_ICM42600_GYRO_CONFIG0_ODR = (\<lambda>x. word_of_int x AND 15),
                   INV_ICM42600_GYRO_ACCEL_CONFIG0_ACCEL_FILT =
                     (\<lambda>x. push_bit 4 (word_of_int x AND 15)),
                   INV_ICM42600_GYRO_ACCEL_CONFIG0_GYRO_FILT = (\<lambda>x. word_of_int x AND 15),
                   INV_ICM42670_GYRO_CONFIG0_FS = (\<lambda>x. push_bit 5 (word_of_int x AND 3)),
                   INV_ICM42670_GYRO_CONFIG0_ODR = (\<lambda>x. word_of_int x AND 15),
                   INV_ICM42670_ACCEL_CONFIG0_FS = (\<lambda>x. push_bit 5 (word_of_int x AND 3)),
                   INV_ICM42670_ACCEL_CONFIG0_ODR = (\<lambda>x. word_of_int x AND 15),
                   INV_ICM42670_SIGNAL_PATH_RESET_SOFT_RESET_DEVICE_CONFIG = 0x10,
                   INV_ICM42600_INT_STATUS_RESET_DONE = 0x10,
                   INV_ICM42600_INTF_CONFIG0_SENSOR_DATA_ENDIAN = 0x10,
                   INV_ICM42600_FIFO_CONFIG_BYPASS = 0x00,
                   INV_ICM42600_FIFO_CONFIG_STREAM = 0x40\<rparr>,
      h_enums = \<lparr>INV_ICM42600_SENSOR_MODE_OFF = 0,
                  INV_ICM42600_SENSOR_MODE_LOW_NOISE = 3,
                  INV_ICM42600_GYRO_FS_2000DPS = 0,
                  INV_ICM42600_ACCEL_FS_16G = 0,
                  INV_ICM42600_ODR_50HZ = 9,
                  INV_ICM42670_ODR_200HZ = 8,
                  INV_ICM42600_FILTER_BW_ODR_DIV_2 = 0,
                  INV_ICM42600_WHOAMI_ICM42600 = 0x40,
                  INV_ICM42600_WHOAMI_ICM42602 = 0x41,
                  INV_ICM42600_WHOAMI_ICM42605 = 0x42,
                  INV_ICM42600_WHOAMI_ICM42622 = 0x46,
                  INV_ICM42600_WHOAMI_ICM42631 = 0x5C,
                  INV_ICM42600_WHOAMI_ICM42670 = 0x67\<rparr>,
      h_times = \<lparr>INV_ICM42600_TEMP_STARTUP_TIME_MS = 14,
                  INV_ICM42600_ACCEL_STARTUP_TIME_MS = 20,
                  INV_ICM42600_GYRO_STARTUP_TIME_MS = 60,
                  INV_ICM42600_GYRO_STOP_TIME_MS = 150,
                  INV_ICM42600_RESET_TIME_MS = 1\<rparr>\<rparr>"

text \<open>A state and a world to start evaluations from: everything off, nothing scripted.\<close>

definition sample_st :: inv_icm42600_state where
  "sample_st =
     \<lparr>chip = INV_CHIP_ICM42670, name = None,
      conf = inv_icm42600_default_conf sample_h,
      suspended = \<lparr>sus_gyro = 0, sus_accel = 0, sus_temp = False\<rparr>,
      fifo_on = False,
      timestamp = \<lparr>ts_gyro = 0, ts_accel = 0\<rparr>,
      indio_dev = True\<rparr>"

definition sample_w :: world where
  "sample_w =
     \<lparr>trace = [], bus_replies = [], regulator_replies = [], clock = [],
      pm_suspended = False, buffer_enabled = True\<rparr>"

subsection \<open>Reading a trace\<close>

text \<open>What a call added to the trace, the register writes in a trace, the time slept in
  \<^verbatim>\<open>msleep\<close>.\<close>

definition new_events :: "world \<Rightarrow> world \<Rightarrow> event list" where
  "new_events w w' = drop (length (trace w)) (trace w')"

fun reg_writes :: "event list \<Rightarrow> (u32 \<times> u32) list" where
  "reg_writes [] = []"
| "reg_writes (RegWrite reg val # es) = (reg, val) # reg_writes es"
| "reg_writes (RegUpdateBits reg msk val # es) = (reg, val) # reg_writes es"
| "reg_writes (e # es) = reg_writes es"

fun slept :: "event \<Rightarrow> nat" where
  "slept (Msleep ms) = ms"
| "slept e = 0"

subsection \<open>The settle delay as the specification words it\<close>

text \<open>
  The floors that apply to a transition from the stored configuration \<open>old\<close> to the
  requested modes: temperature newly enabled, accelerometer leaving Off, gyroscope
  leaving Off, gyroscope entering Off.  The required delay is their maximum, zero when
  none applies.
\<close>

definition applicable_floors ::
  "inv_icm42600_h \<Rightarrow> inv_icm42600_conf \<Rightarrow> int \<Rightarrow> int \<Rightarrow> bool \<Rightarrow> nat list" where
  "applicable_floors h old gyro_arg accel_arg temp =
     (if temp \<and> \<not> temp_en old then [INV_ICM42600_TEMP_STARTUP_TIME_MS (h_times h)] else [])
     @ (if mode (accel old) = INV_ICM42600_SENSOR_MODE_OFF (h_enums h)
           \<and> accel_arg \<noteq> INV_ICM42600_SENSOR_MODE_OFF (h_enums h)
        then [INV_ICM42600_ACCEL_STARTUP_TIME_MS (h_times h)] else [])
     @ (if mode (gyro old) = INV_ICM42600_SENSOR_MODE_OFF (h_enums h)
           \<and> gyro_arg \<noteq> INV_ICM42600_SENSOR_MODE_OFF (h_enums h)
        then [INV_ICM42600_GYRO_STARTUP_TIME_MS (h_times h)] else [])
     @ (if mode (gyro old) \<noteq> INV_ICM42600_SENSOR_MODE_OFF (h_enums h)
           \<and> gyro_arg = INV_ICM42600_SENSOR_MODE_OFF (h_enums h)
        then [INV_ICM42600_GYRO_STOP_TIME_MS (h_times h)] else [])"

definition settle_delay_spec ::
  "inv_icm42600_h \<Rightarrow> inv_icm42600_conf \<Rightarrow> int \<Rightarrow> int \<Rightarrow> bool \<Rightarrow> nat" where
  "settle_delay_spec h old gyro_arg accel_arg temp =
     Max (set (0 # applicable_floors h old gyro_arg accel_arg temp))"

subsection \<open>The resolved request and the validity of a stored configuration\<close>

text \<open>
  What the four conditional assignments at the head of \<^verbatim>\<open>inv_icm42600_set_accel_conf\<close> and
  \<^verbatim>\<open>inv_icm42600_set_gyro_conf\<close> leave in \<^verbatim>\<open>*conf\<close>, as one expression.
\<close>

definition sanitized ::
  "inv_icm42600_sensor_conf \<Rightarrow> inv_icm42600_sensor_conf \<Rightarrow> inv_icm42600_sensor_conf" where
  "sanitized oldconf c =
     c\<lparr>mode := (if mode c < 0 then mode oldconf else mode c),
       fs := (if fs c < 0 then fs oldconf else fs c),
       odr := (if odr c < 0 then odr oldconf else odr c),
       filter_bw := (if filter_bw c < 0 then filter_bw oldconf else filter_bw c)\<rparr>"

text \<open>A configuration with no field left at the ``not given'' value.\<close>

definition sensor_conf_valid :: "inv_icm42600_sensor_conf \<Rightarrow> bool" where
  "sensor_conf_valid c \<longleftrightarrow> 0 \<le> mode c \<and> 0 \<le> fs c \<and> 0 \<le> odr c \<and> 0 \<le> filter_bw c"

subsection \<open>Worlds in which every hardware operation succeeds\<close>

text \<open>Every scripted return code of the bus and of the regulator is zero.\<close>

definition all_ok :: "world \<Rightarrow> bool" where
  "all_ok w \<longleftrightarrow> list_all (\<lambda>r. fst r = 0) (bus_replies w)
              \<and> list_all (\<lambda>r. r = 0) (regulator_replies w)"

section \<open>Properties\<close>

subsection \<open>Evaluation at the sample values\<close>

lemmas sample_defs = sample_h_def sample_st_def sample_w_def inv_icm42600_default_conf_def

lemmas world_defs = regmap_write_def regmap_read_def regmap_bulk_read_def regmap_update_bits_def
  next_reply_def emit_def usleep_range_def msleep_def

subsection \<open>The world\<close>

lemma emit_fields [simp]:
  "trace (emit e w) = trace w @ [e]"
  "bus_replies (emit e w) = bus_replies w"
  "regulator_replies (emit e w) = regulator_replies w"
  "clock (emit e w) = clock w"
  "pm_suspended (emit e w) = pm_suspended w"
  "buffer_enabled (emit e w) = buffer_enabled w"
  by (simp_all add: emit_def)

lemma next_reply_fields [simp]:
  "trace (snd (next_reply w)) = trace w"
  "regulator_replies (snd (next_reply w)) = regulator_replies w"
  "clock (snd (next_reply w)) = clock w"
  "pm_suspended (snd (next_reply w)) = pm_suspended w"
  "buffer_enabled (snd (next_reply w)) = buffer_enabled w"
  by (simp_all add: next_reply_def split: list.splits)

lemma next_reply_eq:
  "next_reply w = (r, w') \<Longrightarrow>
     trace w' = trace w \<and> regulator_replies w' = regulator_replies w \<and> clock w' = clock w
     \<and> pm_suspended w' = pm_suspended w \<and> buffer_enabled w' = buffer_enabled w"
  by (auto simp: next_reply_def split: list.splits)

lemma regmap_write_trace:
  "regmap_write w reg val = (ret, w') \<Longrightarrow> trace w' = trace w @ [RegWrite reg val]"
  by (auto simp: regmap_write_def split: prod.splits dest!: next_reply_eq)

lemma regmap_write_clock:
  "regmap_write w reg val = (ret, w') \<Longrightarrow> clock w' = clock w"
  by (auto simp: regmap_write_def split: prod.splits dest!: next_reply_eq)

lemma regmap_read_trace:
  "regmap_read w reg = (ret, val, w') \<Longrightarrow> trace w' = trace w @ [RegRead reg]"
  by (auto simp: regmap_read_def split: prod.splits dest!: next_reply_eq)

lemma regmap_read_clock:
  "regmap_read w reg = (ret, val, w') \<Longrightarrow> clock w' = clock w"
  by (auto simp: regmap_read_def split: prod.splits dest!: next_reply_eq)

lemma regmap_bulk_read_trace:
  "regmap_bulk_read w reg len = (ret, data, w') \<Longrightarrow> trace w' = trace w @ [RegBulkRead reg len]"
  by (auto simp: regmap_bulk_read_def split: prod.splits dest!: next_reply_eq)

lemma regmap_bulk_read_clock:
  "regmap_bulk_read w reg len = (ret, data, w') \<Longrightarrow> clock w' = clock w"
  by (auto simp: regmap_bulk_read_def split: prod.splits dest!: next_reply_eq)

lemma regmap_bulk_read_length:
  "regmap_bulk_read w reg len = (ret, data, w') \<Longrightarrow> length data = len"
  by (auto simp: regmap_bulk_read_def split: prod.splits dest!: next_reply_eq)

lemma new_events_append: "trace w' = trace w @ evs \<Longrightarrow> new_events w w' = evs"
  by (simp add: new_events_def)

lemma new_events_same [simp]: "new_events w w = []"
  by (simp add: new_events_def)

lemma regmap_read_world:
  "regmap_read w reg = (ret, val, w') \<Longrightarrow>
     trace w' = trace w @ [RegRead reg] \<and> clock w' = clock w"
  by (simp add: regmap_read_trace regmap_read_clock)

lemma regmap_bulk_read_world:
  "regmap_bulk_read w reg len = (ret, data, w') \<Longrightarrow>
     trace w' = trace w @ [RegBulkRead reg len] \<and> clock w' = clock w"
  by (simp add: regmap_bulk_read_trace regmap_bulk_read_clock)

lemma all_ok_emit [simp]: "all_ok (emit e w) = all_ok w"
  by (simp add: all_ok_def)

lemma regmap_write_ok:
  "all_ok w \<Longrightarrow> regmap_write w reg val = (ret, w') \<Longrightarrow> ret = 0 \<and> all_ok w'"
  by (auto simp: regmap_write_def next_reply_def all_ok_def emit_def split: prod.splits list.splits)

lemma regulator_enable_ok:
  "all_ok w \<Longrightarrow> regulator_enable w s = (ret, w') \<Longrightarrow> ret = 0 \<and> all_ok w'"
  by (auto simp: regulator_enable_def all_ok_def emit_def split: list.splits)

lemma all_ok_pm [simp]:
  "all_ok (pm_runtime_enable w) = all_ok w"
  "all_ok (pm_runtime_set_active w) = all_ok w"
  "all_ok (pm_runtime_disable w) = all_ok w"
  "all_ok (regulator_disable w s) = all_ok w"
  by (simp_all add: pm_runtime_enable_def pm_runtime_set_active_def pm_runtime_disable_def
        regulator_disable_def all_ok_def)

subsection \<open>The power-mode register\<close>

lemma set_pwr_mgmt0_noop:
  "gyro_arg = mode (gyro (conf st)) \<Longrightarrow> accel_arg = mode (accel (conf st)) \<Longrightarrow>
   temp = temp_en (conf st) \<Longrightarrow>
   inv_icm42600_set_pwr_mgmt0 h st gyro_arg accel_arg temp sleep_ms w = (0, st, sleep_ms, w)"
  by (simp add: inv_icm42600_set_pwr_mgmt0_def)

lemma set_pwr_mgmt0_reported:
  assumes "\<not> (gyro_arg = mode (gyro (conf st)) \<and> accel_arg = mode (accel (conf st))
              \<and> temp = temp_en (conf st))"
    and "inv_icm42600_set_pwr_mgmt0 h st gyro_arg accel_arg temp (Some v) w = (0, st', sleep', w')"
  shows "sleep' = Some (settle_delay_spec h (conf st) gyro_arg accel_arg temp)"
  using assms
  by (auto simp: inv_icm42600_set_pwr_mgmt0_def Let_def settle_delay_spec_def
        applicable_floors_def split: prod.splits if_splits)

lemma set_pwr_mgmt0_slept:
  assumes "\<not> (gyro_arg = mode (gyro (conf st)) \<and> accel_arg = mode (accel (conf st))
              \<and> temp = temp_en (conf st))"
    and "inv_icm42600_set_pwr_mgmt0 h st gyro_arg accel_arg temp None w = (0, st', sleep', w')"
  shows "sleep' = None
         \<and> sum_list (map slept (new_events w w'))
             = settle_delay_spec h (conf st) gyro_arg accel_arg temp"
  using assms
  by (auto simp: inv_icm42600_set_pwr_mgmt0_def Let_def settle_delay_spec_def
        applicable_floors_def usleep_range_def msleep_def new_events_def
        split: prod.splits if_splits dest!: regmap_write_trace)

lemma settle_delay_spec_floors:
  "(temp \<and> \<not> temp_en old \<longrightarrow>
      INV_ICM42600_TEMP_STARTUP_TIME_MS (h_times h) \<le> settle_delay_spec h old g a temp)
   \<and> (mode (accel old) = INV_ICM42600_SENSOR_MODE_OFF (h_enums h)
        \<and> a \<noteq> INV_ICM42600_SENSOR_MODE_OFF (h_enums h) \<longrightarrow>
      INV_ICM42600_ACCEL_STARTUP_TIME_MS (h_times h) \<le> settle_delay_spec h old g a temp)
   \<and> (mode (gyro old) = INV_ICM42600_SENSOR_MODE_OFF (h_enums h)
        \<and> g \<noteq> INV_ICM42600_SENSOR_MODE_OFF (h_enums h) \<longrightarrow>
      INV_ICM42600_GYRO_STARTUP_TIME_MS (h_times h) \<le> settle_delay_spec h old g a temp)
   \<and> (mode (gyro old) \<noteq> INV_ICM42600_SENSOR_MODE_OFF (h_enums h)
        \<and> g = INV_ICM42600_SENSOR_MODE_OFF (h_enums h) \<longrightarrow>
      INV_ICM42600_GYRO_STOP_TIME_MS (h_times h) \<le> settle_delay_spec h old g a temp)"
  by (simp add: settle_delay_spec_def applicable_floors_def)

lemma settle_delay_spec_both_on:
  "mode (accel old) = INV_ICM42600_SENSOR_MODE_OFF (h_enums h) \<Longrightarrow>
   a \<noteq> INV_ICM42600_SENSOR_MODE_OFF (h_enums h) \<Longrightarrow>
   mode (gyro old) = INV_ICM42600_SENSOR_MODE_OFF (h_enums h) \<Longrightarrow>
   g \<noteq> INV_ICM42600_SENSOR_MODE_OFF (h_enums h) \<Longrightarrow>
   settle_delay_spec h old g a temp
     = max (if temp \<and> \<not> temp_en old then INV_ICM42600_TEMP_STARTUP_TIME_MS (h_times h) else 0)
         (max (INV_ICM42600_ACCEL_STARTUP_TIME_MS (h_times h))
              (INV_ICM42600_GYRO_STARTUP_TIME_MS (h_times h)))"
  by (cases "temp \<and> \<not> temp_en old") (auto simp: settle_delay_spec_def applicable_floors_def)

lemma regmap_write_cases:
  obtains ret w' where "regmap_write w reg val = (ret, w')" "trace w' = trace w @ [RegWrite reg val]"
  by (cases "regmap_write w reg val") (auto dest: regmap_write_trace)

lemma set_pwr_mgmt0_change:
  assumes "\<not> (gyro_arg = mode (gyro (conf st)) \<and> accel_arg = mode (accel (conf st))
              \<and> temp = temp_en (conf st))"
    and "regmap_write w (INV_ICM42670_REG_PWR_MGMT0 (h_regs h))
           (INV_ICM42600_PWR_MGMT0_GYRO (h_fields h) gyro_arg
            OR INV_ICM42600_PWR_MGMT0_ACCEL (h_fields h) accel_arg) = (0, w1)"
    and "inv_icm42600_set_pwr_mgmt0 h st gyro_arg accel_arg temp sleep_ms w = (ret, st', sl, w')"
  shows "ret = 0
         \<and> st' = st\<lparr>conf := (conf st)\<lparr>
                      gyro := (gyro (conf st))\<lparr>mode := gyro_arg\<rparr>,
                      accel := (accel (conf st))\<lparr>mode := accel_arg\<rparr>,
                      temp_en := temp\<rparr>\<rparr>
         \<and> bus_replies w' = bus_replies w1 \<and> regulator_replies w' = regulator_replies w1"
  using assms
  by (auto simp: inv_icm42600_set_pwr_mgmt0_def Let_def usleep_range_def msleep_def
        split: option.splits if_splits)

lemma set_pwr_mgmt0_write_fails:
  assumes "\<not> (gyro_arg = mode (gyro (conf st)) \<and> accel_arg = mode (accel (conf st))
              \<and> temp = temp_en (conf st))"
    and "regmap_write w (INV_ICM42670_REG_PWR_MGMT0 (h_regs h))
           (INV_ICM42600_PWR_MGMT0_GYRO (h_fields h) gyro_arg
            OR INV_ICM42600_PWR_MGMT0_ACCEL (h_fields h) accel_arg) = (err, w1)"
    and "err \<noteq> 0"
  shows "inv_icm42600_set_pwr_mgmt0 h st gyro_arg accel_arg temp sleep_ms w
           = (err, st, sleep_ms, w1)"
  using assms by (simp add: inv_icm42600_set_pwr_mgmt0_def Let_def)

lemma set_pwr_mgmt0_success_state:
  assumes run: "inv_icm42600_set_pwr_mgmt0 h st gyro_arg accel_arg temp sleep_ms w = (0, st', sl, w')"
  shows "st' = st\<lparr>conf := (conf st)\<lparr>
                      gyro := (gyro (conf st))\<lparr>mode := gyro_arg\<rparr>,
                      accel := (accel (conf st))\<lparr>mode := accel_arg\<rparr>,
                      temp_en := temp\<rparr>\<rparr>"
proof (cases "gyro_arg = mode (gyro (conf st)) \<and> accel_arg = mode (accel (conf st))
              \<and> temp = temp_en (conf st)")
  case True
  with run set_pwr_mgmt0_noop [of gyro_arg st accel_arg temp h sleep_ms w]
  have "st' = st" by simp
  with True show ?thesis by simp
next
  case False
  obtain r w1 where wr: "regmap_write w (INV_ICM42670_REG_PWR_MGMT0 (h_regs h))
           (INV_ICM42600_PWR_MGMT0_GYRO (h_fields h) gyro_arg
            OR INV_ICM42600_PWR_MGMT0_ACCEL (h_fields h) accel_arg) = (r, w1)"
    by (rule regmap_write_cases)
  show ?thesis
  proof (cases "r = 0")
    case True
    with set_pwr_mgmt0_change [OF False _ run] wr show ?thesis by simp
  next
    case r: False
    from set_pwr_mgmt0_write_fails [OF False wr r, where sleep_ms = sleep_ms] run r
    show ?thesis by simp
  qed
qed

lemma set_pwr_mgmt0_ok:
  assumes ok: "all_ok w"
    and run: "inv_icm42600_set_pwr_mgmt0 h st gyro_arg accel_arg temp sleep_ms w = (ret, st', sl, w')"
  shows "ret = 0 \<and> all_ok w'"
proof (cases "gyro_arg = mode (gyro (conf st)) \<and> accel_arg = mode (accel (conf st))
              \<and> temp = temp_en (conf st)")
  case True
  with run ok set_pwr_mgmt0_noop [of gyro_arg st accel_arg temp h sleep_ms w]
  show ?thesis by simp
next
  case False
  obtain r w1 where wr: "regmap_write w (INV_ICM42670_REG_PWR_MGMT0 (h_regs h))
           (INV_ICM42600_PWR_MGMT0_GYRO (h_fields h) gyro_arg
            OR INV_ICM42600_PWR_MGMT0_ACCEL (h_fields h) accel_arg) = (r, w1)"
    by (rule regmap_write_cases)
  from regmap_write_ok [OF ok wr] have r: "r = 0" and ok1: "all_ok w1"
    by simp_all
  from set_pwr_mgmt0_change [OF False wr [unfolded r] run] ok1
  show ?thesis by (simp add: all_ok_def)
qed

subsection \<open>The configuration functions\<close>

lemma reg_writes_append [simp]: "reg_writes (xs @ ys) = reg_writes xs @ reg_writes ys"
  by (induction xs rule: reg_writes.induct) simp_all

lemma set_pwr_mgmt0_trace:
  assumes "inv_icm42600_set_pwr_mgmt0 h st gyro_arg accel_arg temp sleep_ms w = (ret, st', sl, w')"
  shows "\<exists>evs. trace w' = trace w @ evs
           \<and> (reg_writes evs = []
              \<or> reg_writes evs = [(INV_ICM42670_REG_PWR_MGMT0 (h_regs h),
                    INV_ICM42600_PWR_MGMT0_GYRO (h_fields h) gyro_arg
                    OR INV_ICM42600_PWR_MGMT0_ACCEL (h_fields h) accel_arg)])"
  using assms
  by (auto simp: inv_icm42600_set_pwr_mgmt0_def Let_def usleep_range_def msleep_def
        split: prod.splits if_splits option.splits dest!: regmap_write_trace)

lemma set_pwr_mgmt0_state:
  assumes "inv_icm42600_set_pwr_mgmt0 h st gyro_arg accel_arg temp sleep_ms w = (ret, st', sl, w')"
  shows "st' = st \<or> (ret = 0 \<and> st' = st\<lparr>conf := (conf st)\<lparr>
                      gyro := (gyro (conf st))\<lparr>mode := gyro_arg\<rparr>,
                      accel := (accel (conf st))\<lparr>mode := accel_arg\<rparr>,
                      temp_en := temp\<rparr>\<rparr>)"
  using assms
  by (auto simp: inv_icm42600_set_pwr_mgmt0_def Let_def
        split: prod.splits if_splits option.splits)

lemma set_pwr_mgmt0_keeps_scale_rate_filter:
  assumes "inv_icm42600_set_pwr_mgmt0 h st gyro_arg accel_arg temp sleep_ms w = (ret, st', sl, w')"
  shows "fs (accel (conf st')) = fs (accel (conf st))
       \<and> odr (accel (conf st')) = odr (accel (conf st))
       \<and> filter_bw (accel (conf st')) = filter_bw (accel (conf st))
       \<and> fs (gyro (conf st')) = fs (gyro (conf st))
       \<and> odr (gyro (conf st')) = odr (gyro (conf st))
       \<and> filter_bw (gyro (conf st')) = filter_bw (gyro (conf st))"
  using set_pwr_mgmt0_state [OF assms] by auto

lemma set_pwr_mgmt0_writes:
  assumes "inv_icm42600_set_pwr_mgmt0 h st gyro_arg accel_arg temp sleep_ms w = (ret, st', sl, w')"
  shows "reg_writes (new_events w w') = []
         \<or> reg_writes (new_events w w') =
             [(INV_ICM42670_REG_PWR_MGMT0 (h_regs h),
               INV_ICM42600_PWR_MGMT0_GYRO (h_fields h) gyro_arg
               OR INV_ICM42600_PWR_MGMT0_ACCEL (h_fields h) accel_arg)]"
  using set_pwr_mgmt0_trace [OF assms] by (auto simp: new_events_append)



lemma sanitize_chain:
  "(let c = conf_arg;
        c = (if mode c < 0 then c\<lparr>mode := mode oldconf\<rparr> else c);
        c = (if fs c < 0 then c\<lparr>fs := fs oldconf\<rparr> else c);
        c = (if odr c < 0 then c\<lparr>odr := odr oldconf\<rparr> else c);
        c = (if filter_bw c < 0 then c\<lparr>filter_bw := filter_bw oldconf\<rparr> else c)
    in F c) = F (sanitized oldconf conf_arg)"
  by (simp add: Let_def sanitized_def)

lemma set_accel_conf_resolved:
  assumes "inv_icm42600_set_accel_conf h st conf_arg sleep_ms w = (ret, st', c', sl, w')"
  shows "c' = sanitized (accel (conf st)) conf_arg"
  using assms unfolding inv_icm42600_set_accel_conf_def sanitize_chain
  by (simp add: Let_def split: prod.splits if_splits)

lemma set_gyro_conf_resolved:
  assumes "inv_icm42600_set_gyro_conf h st conf_arg sleep_ms w = (ret, st', c', sl, w')"
  shows "c' = sanitized (gyro (conf st)) conf_arg"
  using assms unfolding inv_icm42600_set_gyro_conf_def sanitize_chain
  by (simp add: Let_def split: prod.splits if_splits)

lemma sanitized_valid: "sensor_conf_valid oldconf \<Longrightarrow> sensor_conf_valid (sanitized oldconf c)"
  by (simp add: sensor_conf_valid_def sanitized_def)

lemma sanitized_fields:
  "mode (sanitized oldconf c) = (if mode c < 0 then mode oldconf else mode c)"
  "fs (sanitized oldconf c) = (if fs c < 0 then fs oldconf else fs c)"
  "odr (sanitized oldconf c) = (if odr c < 0 then odr oldconf else odr c)"
  "filter_bw (sanitized oldconf c) = (if filter_bw c < 0 then filter_bw oldconf else filter_bw c)"
  by (simp_all add: sanitized_def)


lemma set_accel_conf_mode_only:
  assumes "fs conf_arg < 0" "odr conf_arg < 0" "filter_bw conf_arg < 0"
  shows "inv_icm42600_set_accel_conf h st conf_arg sleep_ms w =
           (case inv_icm42600_set_pwr_mgmt0 h st (mode (gyro (conf st)))
                   (mode (sanitized (accel (conf st)) conf_arg)) (temp_en (conf st)) sleep_ms w
            of (ret, st3, sl, w3) \<Rightarrow> (ret, st3, sanitized (accel (conf st)) conf_arg, sl, w3))"
proof -
  have "fs (sanitized (accel (conf st)) conf_arg) = fs (accel (conf st))"
    "odr (sanitized (accel (conf st)) conf_arg) = odr (accel (conf st))"
    "filter_bw (sanitized (accel (conf st)) conf_arg) = filter_bw (accel (conf st))"
    using assms by (simp_all add: sanitized_def)
  then show ?thesis
    unfolding inv_icm42600_set_accel_conf_def sanitize_chain
    by (simp add: Let_def split: prod.splits)
qed

lemma set_gyro_conf_mode_only:
  assumes "fs conf_arg < 0" "odr conf_arg < 0" "filter_bw conf_arg < 0"
  shows "inv_icm42600_set_gyro_conf h st conf_arg sleep_ms w =
           (case inv_icm42600_set_pwr_mgmt0 h st (mode (sanitized (gyro (conf st)) conf_arg))
                   (mode (accel (conf st))) (temp_en (conf st)) sleep_ms w
            of (ret, st3, sl, w3) \<Rightarrow> (ret, st3, sanitized (gyro (conf st)) conf_arg, sl, w3))"
proof -
  have "fs (sanitized (gyro (conf st)) conf_arg) = fs (gyro (conf st))"
    "odr (sanitized (gyro (conf st)) conf_arg) = odr (gyro (conf st))"
    "filter_bw (sanitized (gyro (conf st)) conf_arg) = filter_bw (gyro (conf st))"
    using assms by (simp_all add: sanitized_def)
  then show ?thesis
    unfolding inv_icm42600_set_gyro_conf_def sanitize_chain
    by (simp add: Let_def split: prod.splits)
qed


lemma set_accel_conf_valid:
  assumes "sensor_conf_valid (accel (conf st))" "sensor_conf_valid (gyro (conf st))"
    and run: "inv_icm42600_set_accel_conf h st conf_arg sleep_ms w = (ret, st', c', sl, w')"
  shows "sensor_conf_valid (accel (conf st')) \<and> sensor_conf_valid (gyro (conf st'))"
proof -
  have "sensor_conf_valid (sanitized (accel (conf st)) conf_arg)"
    using assms(1) by (rule sanitized_valid)
  with assms(1,2) run show ?thesis
    unfolding inv_icm42600_set_accel_conf_def sanitize_chain
    by (auto simp: Let_def sensor_conf_valid_def split: prod.splits if_splits
          dest!: set_pwr_mgmt0_state)
qed

lemma set_gyro_conf_valid:
  assumes "sensor_conf_valid (accel (conf st))" "sensor_conf_valid (gyro (conf st))"
    and run: "inv_icm42600_set_gyro_conf h st conf_arg sleep_ms w = (ret, st', c', sl, w')"
  shows "sensor_conf_valid (accel (conf st')) \<and> sensor_conf_valid (gyro (conf st'))"
proof -
  have "sensor_conf_valid (sanitized (gyro (conf st)) conf_arg)"
    using assms(2) by (rule sanitized_valid)
  with assms(1,2) run show ?thesis
    unfolding inv_icm42600_set_gyro_conf_def sanitize_chain
    by (auto simp: Let_def sensor_conf_valid_def split: prod.splits if_splits
          dest!: set_pwr_mgmt0_state)
qed

subsection \<open>Bring-up\<close>

lemma set_conf_cases:
  assumes "inv_icm42600_set_conf h st conf_arg w = (ret, st', w')"
  shows "if ret = 0
         then st' = st\<lparr>conf := conf_arg\<rparr>
              \<and> new_events w w' =
                  [RegWrite (INV_ICM42670_REG_PWR_MGMT0 (h_regs h))
                     (INV_ICM42600_PWR_MGMT0_GYRO (h_fields h) (mode (gyro conf_arg))
                      OR INV_ICM42600_PWR_MGMT0_ACCEL (h_fields h) (mode (accel conf_arg))),
                   RegWrite (INV_ICM42670_REG_GYRO_CONFIG0 (h_regs h))
                     (INV_ICM42670_GYRO_CONFIG0_FS (h_fields h) (fs (gyro conf_arg))
                      OR INV_ICM42670_GYRO_CONFIG0_ODR (h_fields h) (odr (gyro conf_arg))),
                   RegWrite (INV_ICM42670_REG_ACCEL_CONFIG0 (h_regs h))
                     (INV_ICM42670_ACCEL_CONFIG0_FS (h_fields h) (fs (accel conf_arg))
                      OR INV_ICM42670_ACCEL_CONFIG0_ODR (h_fields h) (odr (accel conf_arg)))]
         else st' = st"
  using assms
  by (auto simp: inv_icm42600_set_conf_def Let_def new_events_def
        split: prod.splits if_splits dest!: regmap_write_trace)

lemma set_conf_success_iff:
  assumes "inv_icm42600_set_conf h st conf_arg w = (ret, st', w')"
  shows "ret = 0 \<longleftrightarrow> list_all (\<lambda>r. fst r = 0) (take 3 (bus_replies w))"
  using assms
  by (auto simp: inv_icm42600_set_conf_def Let_def world_defs
        split: prod.splits if_splits list.splits)

subsection \<open>The interrupt\<close>

lemma irq_timestamp_result:
  assumes "inv_icm42600_irq_timestamp st w = (r, st1, w1)"
  shows "r = IRQ_WAKE_THREAD
         \<and> (\<exists>t1 t2. trace w1 = trace w @ [GetTimeNs t1, GetTimeNs t2]
               \<and> st1 = st\<lparr>timestamp := (timestamp st)\<lparr>ts_gyro := t1, ts_accel := t2\<rparr>\<rparr>)"
  using assms
  by (auto simp: inv_icm42600_irq_timestamp_def iio_get_time_ns_def Let_def
        split: prod.splits list.splits)

lemma irq_handler_result:
  assumes "inv_icm42600_irq_handler h st w = (r, st', w')"
  shows "r = IRQ_HANDLED \<and> st' = st \<and> clock w' = clock w
         \<and> (\<exists>evs. trace w' = trace w @ RegRead (INV_ICM42670_REG_INT_STATUS_DRDY (h_regs h)) # evs
              \<and> (evs = []
                 \<or> evs = [RegBulkRead (INV_ICM42670_REG_ACCEL_DATA_X (h_regs h)) 12]
                 \<or> (\<exists>s. evs = [RegBulkRead (INV_ICM42670_REG_ACCEL_DATA_X (h_regs h)) 12,
                                 PushToBuffers s]
                         \<and> ts s = ts_accel (timestamp st))))"
  using assms
  by (auto simp: inv_icm42600_irq_handler_def Let_def iio_push_to_buffers_def
        split: prod.splits if_splits
        dest!: regmap_read_world regmap_bulk_read_world)

subsection \<open>Suspend and resume\<close>

lemma enable_regulator_vddio_ok:
  "all_ok w \<Longrightarrow> inv_icm42600_enable_regulator_vddio w = (ret, w') \<Longrightarrow> ret = 0 \<and> all_ok w'"
  by (auto simp: inv_icm42600_enable_regulator_vddio_def usleep_range_def Let_def
        split: prod.splits if_splits dest: regulator_enable_ok)

lemma suspend_success_state:
  assumes run: "inv_icm42600_suspend h st w = (0, st1, w1)"
  shows "\<exists>g a t. st1 = st\<lparr>suspended := (suspended st)\<lparr>sus_gyro := mode (gyro (conf st)),
                            sus_accel := mode (accel (conf st)), sus_temp := temp_en (conf st)\<rparr>,
                        conf := (conf st)\<lparr>gyro := (gyro (conf st))\<lparr>mode := g\<rparr>,
                                   accel := (accel (conf st))\<lparr>mode := a\<rparr>, temp_en := t\<rparr>\<rparr>"
proof -
  let ?st0 = "st\<lparr>suspended := (suspended st)\<lparr>sus_gyro := mode (gyro (conf st)),
                            sus_accel := mode (accel (conf st)), sus_temp := temp_en (conf st)\<rparr>\<rparr>"
  let ?off = "INV_ICM42600_SENSOR_MODE_OFF (h_enums h)"
  show ?thesis
  proof (cases "pm_runtime_suspended w")
    case True
    with run have "st1 = ?st0"
      by (simp add: inv_icm42600_suspend_def Let_def)
    then have "st1 = ?st0\<lparr>conf := (conf st)\<lparr>gyro := (gyro (conf st))\<lparr>mode := mode (gyro (conf st))\<rparr>,
                 accel := (accel (conf st))\<lparr>mode := mode (accel (conf st))\<rparr>,
                 temp_en := temp_en (conf st)\<rparr>\<rparr>"
      by simp
    then show ?thesis by blast
  next
    case False
    obtain r0 w0 where fifo: "(if fifo_on ?st0 then
                 regmap_write w (INV_ICM42600_REG_FIFO_CONFIG (h_regs h))
                   (INV_ICM42600_FIFO_CONFIG_BYPASS (h_fields h))
               else (0, w)) = (r0, w0)"
      by (cases "(if fifo_on ?st0 then
                 regmap_write w (INV_ICM42600_REG_FIFO_CONFIG (h_regs h))
                   (INV_ICM42600_FIFO_CONFIG_BYPASS (h_fields h))
               else (0, w))") auto
    obtain r2 st2 sl w2 where pwr:
      "inv_icm42600_set_pwr_mgmt0 h ?st0 ?off ?off False None w0 = (r2, st2, sl, w2)"
      by (cases "inv_icm42600_set_pwr_mgmt0 h ?st0 ?off ?off False None w0") auto
    from run False fifo pwr have "r0 = 0 \<and> r2 = 0 \<and> st1 = st2"
      by (simp add: inv_icm42600_suspend_def Let_def split: if_splits)
    with set_pwr_mgmt0_success_state [of h ?st0 ?off ?off False None w0 st2 sl w2] pwr
    have "st1 = ?st0\<lparr>conf := (conf st)\<lparr>gyro := (gyro (conf st))\<lparr>mode := ?off\<rparr>,
                 accel := (accel (conf st))\<lparr>mode := ?off\<rparr>, temp_en := False\<rparr>\<rparr>"
      by simp
    then show ?thesis by blast
  qed
qed

lemma suspend_ok:
  assumes ok: "all_ok w" and run: "inv_icm42600_suspend h st w = (ret, st1, w1)"
  shows "ret = 0 \<and> all_ok w1"
proof -
  let ?st0 = "st\<lparr>suspended := (suspended st)\<lparr>sus_gyro := mode (gyro (conf st)),
                            sus_accel := mode (accel (conf st)), sus_temp := temp_en (conf st)\<rparr>\<rparr>"
  let ?off = "INV_ICM42600_SENSOR_MODE_OFF (h_enums h)"
  show ?thesis
  proof (cases "pm_runtime_suspended w")
    case True
    with run ok show ?thesis
      by (simp add: inv_icm42600_suspend_def Let_def)
  next
    case False
    obtain r0 w0 where fifo: "(if fifo_on ?st0 then
                 regmap_write w (INV_ICM42600_REG_FIFO_CONFIG (h_regs h))
                   (INV_ICM42600_FIFO_CONFIG_BYPASS (h_fields h))
               else (0, w)) = (r0, w0)"
      by (cases "(if fifo_on ?st0 then
                 regmap_write w (INV_ICM42600_REG_FIFO_CONFIG (h_regs h))
                   (INV_ICM42600_FIFO_CONFIG_BYPASS (h_fields h))
               else (0, w))") auto
    from fifo ok have r0: "r0 = 0" and ok0: "all_ok w0"
      by (auto split: if_splits dest: regmap_write_ok)
    obtain r2 st2 sl w2 where pwr:
      "inv_icm42600_set_pwr_mgmt0 h ?st0 ?off ?off False None w0 = (r2, st2, sl, w2)"
      by (cases "inv_icm42600_set_pwr_mgmt0 h ?st0 ?off ?off False None w0") auto
    from set_pwr_mgmt0_ok [OF ok0 pwr] have r2: "r2 = 0" and ok2: "all_ok w2"
      by simp_all
    from run False fifo pwr r0 r2 have "ret = 0 \<and> w1 = regulator_disable w2 vddio_supply"
      by (simp add: inv_icm42600_suspend_def Let_def)
    with ok2 show ?thesis by simp
  qed
qed

lemma resume_result:
  assumes run: "inv_icm42600_resume h st1 w2 = (ret, st2, w3)"
  shows "(all_ok w2 \<longrightarrow> ret = 0)
         \<and> (ret = 0 \<longrightarrow>
              st2 = st1\<lparr>conf := (conf st1)\<lparr>
                      gyro := (gyro (conf st1))\<lparr>mode := sus_gyro (suspended st1)\<rparr>,
                      accel := (accel (conf st1))\<lparr>mode := sus_accel (suspended st1)\<rparr>,
                      temp_en := sus_temp (suspended st1)\<rparr>\<rparr>
              \<and> (fifo_on st1 \<longrightarrow>
                    last (trace w3) = RegWrite (INV_ICM42600_REG_FIFO_CONFIG (h_regs h))
                                        (INV_ICM42600_FIFO_CONFIG_STREAM (h_fields h))))"
proof -
  obtain r0 w0 where reg: "inv_icm42600_enable_regulator_vddio w2 = (r0, w0)"
    by (cases "inv_icm42600_enable_regulator_vddio w2") auto
  let ?wa = "pm_runtime_enable (pm_runtime_set_active (pm_runtime_disable w0))"
  obtain r1 st' sl w1 where pwr:
    "inv_icm42600_set_pwr_mgmt0 h st1 (sus_gyro (suspended st1)) (sus_accel (suspended st1))
       (sus_temp (suspended st1)) None ?wa = (r1, st', sl, w1)"
    by (cases "inv_icm42600_set_pwr_mgmt0 h st1 (sus_gyro (suspended st1))
       (sus_accel (suspended st1)) (sus_temp (suspended st1)) None ?wa") auto
  obtain r4 w4 where wr: "regmap_write w1 (INV_ICM42600_REG_FIFO_CONFIG (h_regs h))
                            (INV_ICM42600_FIFO_CONFIG_STREAM (h_fields h)) = (r4, w4)"
    and tr: "trace w4 = trace w1 @ [RegWrite (INV_ICM42600_REG_FIFO_CONFIG (h_regs h))
                            (INV_ICM42600_FIFO_CONFIG_STREAM (h_fields h))]"
    by (rule regmap_write_cases)
  have res: "(ret, st2, w3) =
        (if r0 \<noteq> 0 then (r0, st1, w0)
         else if r1 \<noteq> 0 then (r1, st', w1)
         else if fifo_on st' then (r4, st', w4) else (r1, st', w1))"
    using run reg pwr wr
    by (cases "r0 = 0"; cases "r1 = 0"; cases "fifo_on st'")
       (simp_all add: inv_icm42600_resume_def Let_def)
  have okpart: "all_ok w2 \<longrightarrow> ret = 0"
  proof
    assume ok: "all_ok w2"
    from enable_regulator_vddio_ok [OF ok reg] have r0: "r0 = 0" and ok0: "all_ok ?wa"
      by simp_all
    from set_pwr_mgmt0_ok [OF ok0 pwr] have r1: "r1 = 0" and ok1: "all_ok w1"
      by simp_all
    from regmap_write_ok [OF ok1 wr] have "r4 = 0" by simp
    with res r0 r1 show "ret = 0" by (simp split: if_splits)
  qed
  have statepart: "ret = 0 \<longrightarrow>
              st2 = st1\<lparr>conf := (conf st1)\<lparr>
                      gyro := (gyro (conf st1))\<lparr>mode := sus_gyro (suspended st1)\<rparr>,
                      accel := (accel (conf st1))\<lparr>mode := sus_accel (suspended st1)\<rparr>,
                      temp_en := sus_temp (suspended st1)\<rparr>\<rparr>
              \<and> (fifo_on st1 \<longrightarrow>
                    last (trace w3) = RegWrite (INV_ICM42600_REG_FIFO_CONFIG (h_regs h))
                                        (INV_ICM42600_FIFO_CONFIG_STREAM (h_fields h)))"
  proof
    assume z: "ret = 0"
    with res have r0: "r0 = 0" and r1: "r1 = 0" and st2: "st2 = st'"
      by (simp_all split: if_splits)
    from set_pwr_mgmt0_success_state [OF pwr [unfolded r1]]
    have st': "st' = st1\<lparr>conf := (conf st1)\<lparr>
                      gyro := (gyro (conf st1))\<lparr>mode := sus_gyro (suspended st1)\<rparr>,
                      accel := (accel (conf st1))\<lparr>mode := sus_accel (suspended st1)\<rparr>,
                      temp_en := sus_temp (suspended st1)\<rparr>\<rparr>" .
    then have f: "fifo_on st' = fifo_on st1" by simp
    from res r0 r1 f have "fifo_on st1 \<longrightarrow> w3 = w4"
      by (simp split: if_splits)
    with tr st2 st' show "st2 = st1\<lparr>conf := (conf st1)\<lparr>
                      gyro := (gyro (conf st1))\<lparr>mode := sus_gyro (suspended st1)\<rparr>,
                      accel := (accel (conf st1))\<lparr>mode := sus_accel (suspended st1)\<rparr>,
                      temp_en := sus_temp (suspended st1)\<rparr>\<rparr>
              \<and> (fifo_on st1 \<longrightarrow>
                    last (trace w3) = RegWrite (INV_ICM42600_REG_FIFO_CONFIG (h_regs h))
                                        (INV_ICM42600_FIFO_CONFIG_STREAM (h_fields h)))"
      by auto
  qed
  from okpart statepart show ?thesis by blast
qed

subsection \<open>Claims about the power-mode register\<close>

text \<open>
  C2.  When \<^verbatim>\<open>inv_icm42600_set_pwr_mgmt0\<close> changes the power mode and the register write
  succeeds, the settle delay it reports through \<^verbatim>\<open>sleep_ms\<close> (or sleeps itself, when the
  pointer is null) is the maximum of the floors that apply, not their sum: it is at least
  the temperature start-up time when temperature is newly enabled, at least the
  accelerometer start-up time when the accelerometer leaves Off, at least the gyroscope
  start-up time when the gyroscope leaves Off, at least the gyroscope stop time when the
  gyroscope enters Off; when both sensors leave Off together it is the maximum of the two
  start-up times (and of the temperature floor, if that applies as well).
\<close>

theorem set_pwr_mgmt0_settle_delay_is_max:
  assumes "\<not> (gyro_arg = mode (gyro (conf st)) \<and> accel_arg = mode (accel (conf st))
              \<and> temp = temp_en (conf st))"
    and "inv_icm42600_set_pwr_mgmt0 h st gyro_arg accel_arg temp sleep_ms w = (0, st', sleep', w')"
  shows "(case sleep_ms of
            Some v \<Rightarrow> sleep' = Some (settle_delay_spec h (conf st) gyro_arg accel_arg temp)
          | None \<Rightarrow> sleep' = None
                    \<and> sum_list (map slept (new_events w w'))
                        = settle_delay_spec h (conf st) gyro_arg accel_arg temp)
         \<and> (temp \<and> \<not> temp_en (conf st) \<longrightarrow>
              INV_ICM42600_TEMP_STARTUP_TIME_MS (h_times h)
                \<le> settle_delay_spec h (conf st) gyro_arg accel_arg temp)
         \<and> (mode (accel (conf st)) = INV_ICM42600_SENSOR_MODE_OFF (h_enums h)
              \<and> accel_arg \<noteq> INV_ICM42600_SENSOR_MODE_OFF (h_enums h) \<longrightarrow>
              INV_ICM42600_ACCEL_STARTUP_TIME_MS (h_times h)
                \<le> settle_delay_spec h (conf st) gyro_arg accel_arg temp)
         \<and> (mode (gyro (conf st)) = INV_ICM42600_SENSOR_MODE_OFF (h_enums h)
              \<and> gyro_arg \<noteq> INV_ICM42600_SENSOR_MODE_OFF (h_enums h) \<longrightarrow>
              INV_ICM42600_GYRO_STARTUP_TIME_MS (h_times h)
                \<le> settle_delay_spec h (conf st) gyro_arg accel_arg temp)
         \<and> (mode (gyro (conf st)) \<noteq> INV_ICM42600_SENSOR_MODE_OFF (h_enums h)
              \<and> gyro_arg = INV_ICM42600_SENSOR_MODE_OFF (h_enums h) \<longrightarrow>
              INV_ICM42600_GYRO_STOP_TIME_MS (h_times h)
                \<le> settle_delay_spec h (conf st) gyro_arg accel_arg temp)
         \<and> (mode (accel (conf st)) = INV_ICM42600_SENSOR_MODE_OFF (h_enums h)
              \<and> accel_arg \<noteq> INV_ICM42600_SENSOR_MODE_OFF (h_enums h)
              \<and> mode (gyro (conf st)) = INV_ICM42600_SENSOR_MODE_OFF (h_enums h)
              \<and> gyro_arg \<noteq> INV_ICM42600_SENSOR_MODE_OFF (h_enums h) \<longrightarrow>
              settle_delay_spec h (conf st) gyro_arg accel_arg temp
                = max (if temp \<and> \<not> temp_en (conf st)
                       then INV_ICM42600_TEMP_STARTUP_TIME_MS (h_times h) else 0)
                    (max (INV_ICM42600_ACCEL_STARTUP_TIME_MS (h_times h))
                         (INV_ICM42600_GYRO_STARTUP_TIME_MS (h_times h))))"
proof -
  have delay: "case sleep_ms of
            Some v \<Rightarrow> sleep' = Some (settle_delay_spec h (conf st) gyro_arg accel_arg temp)
          | None \<Rightarrow> sleep' = None
                    \<and> sum_list (map slept (new_events w w'))
                        = settle_delay_spec h (conf st) gyro_arg accel_arg temp"
  proof (cases sleep_ms)
    case None
    with assms set_pwr_mgmt0_slept show ?thesis by simp
  next
    case (Some v)
    with assms set_pwr_mgmt0_reported show ?thesis by simp
  qed
  from delay settle_delay_spec_floors [of temp "conf st" h gyro_arg accel_arg]
    settle_delay_spec_both_on [of "conf st" h accel_arg gyro_arg temp]
  show ?thesis by blast
qed

text \<open>Both sensors from Off to mode 3 at the sample values: 60 ms, the larger of 20 and 60.\<close>

theorem set_pwr_mgmt0_settle_delay_is_max_witness:
  "fst (snd (snd (inv_icm42600_set_pwr_mgmt0 sample_h sample_st 3 3 False (Some 7) sample_w)))
     = Some (max 20 60)"
proof -
  let ?r = "inv_icm42600_set_pwr_mgmt0 sample_h sample_st 3 3 False (Some 7) sample_w"
  have change: "\<not> ((3::int) = mode (gyro (conf sample_st)) \<and> (3::int) = mode (accel (conf sample_st))
              \<and> False = temp_en (conf sample_st))"
    by (simp add: sample_defs)
  have run: "?r = (0, fst (snd ?r), fst (snd (snd ?r)), snd (snd (snd ?r)))"
    by (simp add: inv_icm42600_set_pwr_mgmt0_def sample_defs world_defs Let_def)
  from set_pwr_mgmt0_settle_delay_is_max [OF change run]
  show ?thesis by (simp add: sample_defs)
qed

text \<open>
  C3 as stated fails where the caller supplies the out-parameter: on the early return the
  function does not write \<^verbatim>\<open>*sleep_ms\<close>, so a cell that held 7 before the call holds 7
  after it, not 0.
\<close>

theorem set_pwr_mgmt0_same_triple_reports_zero_counterexample:
  "mode (gyro (conf sample_st)) = 0 \<and> mode (accel (conf sample_st)) = 0
   \<and> temp_en (conf sample_st) = False
   \<and> inv_icm42600_set_pwr_mgmt0 sample_h sample_st 0 0 False (Some 7) sample_w
       = (0, sample_st, Some 7, sample_w)
   \<and> fst (snd (snd (inv_icm42600_set_pwr_mgmt0 sample_h sample_st 0 0 False (Some 7) sample_w)))
       \<noteq> Some 0"
  by (simp add: inv_icm42600_set_pwr_mgmt0_def sample_defs)

text \<open>
  C3, amended.  Calling \<^verbatim>\<open>inv_icm42600_set_pwr_mgmt0\<close> with the gyroscope mode, the
  accelerometer mode and the temperature flag all equal to the stored ones is a no-op: it
  returns 0, leaves the state as it is, adds nothing to the trace (no register write, no
  sleep) and leaves the out-parameter untouched, so a caller that supplied a cell reads
  back what the cell held before the call.
\<close>

theorem set_pwr_mgmt0_same_triple_is_noop:
  assumes "gyro_arg = mode (gyro (conf st))" and "accel_arg = mode (accel (conf st))"
    and "temp = temp_en (conf st)"
  shows "inv_icm42600_set_pwr_mgmt0 h st gyro_arg accel_arg temp sleep_ms w = (0, st, sleep_ms, w)"
  using assms by (rule set_pwr_mgmt0_noop)

theorem set_pwr_mgmt0_same_triple_is_noop_witness:
  "inv_icm42600_set_pwr_mgmt0 sample_h sample_st 0 0 False None sample_w
     = (0, sample_st, None, sample_w)
   \<and> inv_icm42600_set_pwr_mgmt0 sample_h sample_st 0 0 False (Some 0) sample_w
     = (0, sample_st, Some 0, sample_w)"
proof -
  have "(0::int) = mode (gyro (conf sample_st))" "(0::int) = mode (accel (conf sample_st))"
    "False = temp_en (conf sample_st)"
    by (simp_all add: sample_defs)
  then show ?thesis
    using set_pwr_mgmt0_same_triple_is_noop by blast
qed

text \<open>
  C4.  If the write of the power-mode register fails, \<^verbatim>\<open>inv_icm42600_set_pwr_mgmt0\<close>
  returns the error of the transport and the state (gyroscope mode, accelerometer mode,
  temperature flag and all the rest) is as before the call.
\<close>

theorem set_pwr_mgmt0_write_failure_keeps_state:
  assumes "\<not> (gyro_arg = mode (gyro (conf st)) \<and> accel_arg = mode (accel (conf st))
              \<and> temp = temp_en (conf st))"
    and "regmap_write w (INV_ICM42670_REG_PWR_MGMT0 (h_regs h))
           (INV_ICM42600_PWR_MGMT0_GYRO (h_fields h) gyro_arg
            OR INV_ICM42600_PWR_MGMT0_ACCEL (h_fields h) accel_arg) = (err, w1)"
    and "err \<noteq> 0"
  shows "inv_icm42600_set_pwr_mgmt0 h st gyro_arg accel_arg temp sleep_ms w
           = (err, st, sleep_ms, w1)"
  using assms by (rule set_pwr_mgmt0_write_fails)

theorem set_pwr_mgmt0_write_failure_keeps_state_witness:
  "inv_icm42600_set_pwr_mgmt0 sample_h sample_st 3 3 True None
       (sample_w\<lparr>bus_replies := [(- 5, [])]\<rparr>)
     = (- 5, sample_st, None, sample_w\<lparr>trace := [RegWrite 0x1F 0xF]\<rparr>)"
proof -
  have change: "\<not> ((3::int) = mode (gyro (conf sample_st)) \<and> (3::int) = mode (accel (conf sample_st))
              \<and> True = temp_en (conf sample_st))"
    by (simp add: sample_defs)
  have wr: "regmap_write (sample_w\<lparr>bus_replies := [(- 5, [])]\<rparr>)
           (INV_ICM42670_REG_PWR_MGMT0 (h_regs sample_h))
           (INV_ICM42600_PWR_MGMT0_GYRO (h_fields sample_h) 3
            OR INV_ICM42600_PWR_MGMT0_ACCEL (h_fields sample_h) 3)
          = (- 5, sample_w\<lparr>trace := [RegWrite 0x1F 0xF]\<rparr>)"
    by (simp add: sample_defs world_defs)
  from set_pwr_mgmt0_write_failure_keeps_state [OF change wr]
  show ?thesis by simp
qed

subsection \<open>Claims about the configuration functions\<close>

text \<open>
  C5.  \<^verbatim>\<open>inv_icm42600_set_accel_conf\<close> called with mode, full scale and rate equal to the
  stored ones and a different filter issues exactly one register write, whether that write
  succeeds or fails: to the shared filter register \<^verbatim>\<open>GYRO_ACCEL_CONFIG0\<close>, with a value that
  combines the new accelerometer filter with the gyroscope's stored filter.  Nothing else
  reaches the trace, so neither the scale/rate register nor the power-mode register is
  written.  On success only the stored accelerometer filter changes; on failure nothing.
\<close>

theorem set_accel_conf_filter_only:
  assumes same: "mode conf_arg = mode (accel (conf st))" "fs conf_arg = fs (accel (conf st))"
      "odr conf_arg = odr (accel (conf st))"
    and filt: "filter_bw conf_arg \<noteq> filter_bw (accel (conf st))" "0 \<le> filter_bw conf_arg"
    and run: "inv_icm42600_set_accel_conf h st conf_arg sleep_ms w = (ret, st', c', sl, w')"
  shows "new_events w w' =
           [RegWrite (INV_ICM42600_REG_GYRO_ACCEL_CONFIG0 (h_regs h))
              (INV_ICM42600_GYRO_ACCEL_CONFIG0_ACCEL_FILT (h_fields h) (filter_bw conf_arg)
               OR INV_ICM42600_GYRO_ACCEL_CONFIG0_GYRO_FILT (h_fields h)
                    (filter_bw (gyro (conf st))))]
         \<and> reg_writes (new_events w w') =
           [(INV_ICM42600_REG_GYRO_ACCEL_CONFIG0 (h_regs h),
             INV_ICM42600_GYRO_ACCEL_CONFIG0_ACCEL_FILT (h_fields h) (filter_bw conf_arg)
             OR INV_ICM42600_GYRO_ACCEL_CONFIG0_GYRO_FILT (h_fields h)
                  (filter_bw (gyro (conf st))))]
         \<and> (if ret = 0
             then st' = st\<lparr>conf := (conf st)\<lparr>accel :=
                          (accel (conf st))\<lparr>filter_bw := filter_bw conf_arg\<rparr>\<rparr>\<rparr>
             else st' = st)"
proof -
  let ?val = "INV_ICM42600_GYRO_ACCEL_CONFIG0_ACCEL_FILT (h_fields h) (filter_bw conf_arg)
               OR INV_ICM42600_GYRO_ACCEL_CONFIG0_GYRO_FILT (h_fields h)
                    (filter_bw (gyro (conf st)))"
  let ?reg = "INV_ICM42600_REG_GYRO_ACCEL_CONFIG0 (h_regs h)"
  have c: "sanitized (accel (conf st)) conf_arg = conf_arg"
    using same filt by (simp add: sanitized_def)
  obtain r w1 where wr: "regmap_write w ?reg ?val = (r, w1)"
    and tr: "trace w1 = trace w @ [RegWrite ?reg ?val]"
    by (rule regmap_write_cases)
  show ?thesis
  proof (cases "r = 0")
    case False
    with run wr same filt c have "ret = r \<and> st' = st \<and> w' = w1"
      unfolding inv_icm42600_set_accel_conf_def sanitize_chain
      by (auto simp: Let_def)
    with False tr show ?thesis by (simp add: new_events_append)
  next
    case True
    let ?st2 = "st\<lparr>conf := (conf st)\<lparr>accel :=
                          (accel (conf st))\<lparr>filter_bw := filter_bw conf_arg\<rparr>\<rparr>\<rparr>"
    have "inv_icm42600_set_pwr_mgmt0 h ?st2 (mode (gyro (conf ?st2))) (mode conf_arg)
            (temp_en (conf ?st2)) sleep_ms w1 = (0, ?st2, sleep_ms, w1)"
      using same by (intro set_pwr_mgmt0_noop) simp_all
    with run wr same filt c True have "ret = 0 \<and> st' = ?st2 \<and> w' = w1"
      unfolding inv_icm42600_set_accel_conf_def sanitize_chain
      by (auto simp: Let_def)
    with tr show ?thesis by (simp add: new_events_append)
  qed
qed

theorem set_accel_conf_filter_only_witness:
  "(case inv_icm42600_set_accel_conf sample_h sample_st
           \<lparr>mode = 0, fs = 0, odr = 9, filter_bw = 2\<rparr> None sample_w of
      (ret, st', c', sl, w') \<Rightarrow>
        ret = 0 \<and> new_events sample_w w' = [RegWrite 0x52 0x20]
        \<and> filter_bw (accel (conf st')) = 2 \<and> filter_bw (gyro (conf st')) = 0)"
proof -
  let ?c = "\<lparr>mode = 0, fs = 0, odr = 9, filter_bw = 2\<rparr>"
  obtain ret st' c' sl w' where
    run: "inv_icm42600_set_accel_conf sample_h sample_st ?c None sample_w = (ret, st', c', sl, w')"
    by (cases "inv_icm42600_set_accel_conf sample_h sample_st ?c None sample_w") auto
  have ret: "ret = 0"
    using run
    by (simp add: inv_icm42600_set_accel_conf_def inv_icm42600_set_pwr_mgmt0_def Let_def
          sample_defs world_defs)
  have "mode ?c = mode (accel (conf sample_st))" "fs ?c = fs (accel (conf sample_st))"
    "odr ?c = odr (accel (conf sample_st))" "filter_bw ?c \<noteq> filter_bw (accel (conf sample_st))"
    "0 \<le> filter_bw ?c"
    by (simp_all add: sample_defs)
  from set_accel_conf_filter_only [OF this run] ret
  have "new_events sample_w w' = [RegWrite 0x52 0x20]
        \<and> filter_bw (accel (conf st')) = 2 \<and> filter_bw (gyro (conf st')) = 0"
    by (simp add: sample_defs)
  with ret show ?thesis
    unfolding run by simp
qed


text \<open>
  C6.  A request to \<^verbatim>\<open>inv_icm42600_set_accel_conf\<close> or \<^verbatim>\<open>inv_icm42600_set_gyro_conf\<close> that
  gives the mode only (full scale, rate and filter all negative) leaves the stored full
  scale, rate and filter of that sensor as they were, resolves the three fields of the
  request to the stored values, and writes no register but, at most once, the power-mode
  register, whose value encodes the two modes only.
\<close>

theorem mode_only_request_keeps_scale_rate_filter:
  assumes "fs conf_arg < 0" and "odr conf_arg < 0" and "filter_bw conf_arg < 0"
  shows "(case inv_icm42600_set_accel_conf h st conf_arg sleep_ms w of
            (ret, st', c', sl, w') \<Rightarrow>
              fs (accel (conf st')) = fs (accel (conf st))
              \<and> odr (accel (conf st')) = odr (accel (conf st))
              \<and> filter_bw (accel (conf st')) = filter_bw (accel (conf st))
              \<and> fs c' = fs (accel (conf st)) \<and> odr c' = odr (accel (conf st))
              \<and> filter_bw c' = filter_bw (accel (conf st))
              \<and> (reg_writes (new_events w w') = []
                 \<or> reg_writes (new_events w w') =
                     [(INV_ICM42670_REG_PWR_MGMT0 (h_regs h),
                       INV_ICM42600_PWR_MGMT0_GYRO (h_fields h) (mode (gyro (conf st)))
                       OR INV_ICM42600_PWR_MGMT0_ACCEL (h_fields h) (mode c'))]))
       \<and> (case inv_icm42600_set_gyro_conf h st conf_arg sleep_ms w of
            (ret, st', c', sl, w') \<Rightarrow>
              fs (gyro (conf st')) = fs (gyro (conf st))
              \<and> odr (gyro (conf st')) = odr (gyro (conf st))
              \<and> filter_bw (gyro (conf st')) = filter_bw (gyro (conf st))
              \<and> fs c' = fs (gyro (conf st)) \<and> odr c' = odr (gyro (conf st))
              \<and> filter_bw c' = filter_bw (gyro (conf st))
              \<and> (reg_writes (new_events w w') = []
                 \<or> reg_writes (new_events w w') =
                     [(INV_ICM42670_REG_PWR_MGMT0 (h_regs h),
                       INV_ICM42600_PWR_MGMT0_GYRO (h_fields h) (mode c')
                       OR INV_ICM42600_PWR_MGMT0_ACCEL (h_fields h) (mode (accel (conf st))))]))"
proof (rule conjI)
  let ?c = "sanitized (accel (conf st)) conf_arg"
  obtain ret st3 sl w3 where p: "inv_icm42600_set_pwr_mgmt0 h st (mode (gyro (conf st)))
        (mode ?c) (temp_en (conf st)) sleep_ms w = (ret, st3, sl, w3)"
    by (cases "inv_icm42600_set_pwr_mgmt0 h st (mode (gyro (conf st)))
        (mode ?c) (temp_en (conf st)) sleep_ms w") auto
  have c: "fs ?c = fs (accel (conf st))" "odr ?c = odr (accel (conf st))"
    "filter_bw ?c = filter_bw (accel (conf st))"
    using assms by (simp_all add: sanitized_def)
  from set_pwr_mgmt0_keeps_scale_rate_filter [OF p] set_pwr_mgmt0_writes [OF p] c
  show "case inv_icm42600_set_accel_conf h st conf_arg sleep_ms w of
            (ret, st', c', sl, w') \<Rightarrow>
              fs (accel (conf st')) = fs (accel (conf st))
              \<and> odr (accel (conf st')) = odr (accel (conf st))
              \<and> filter_bw (accel (conf st')) = filter_bw (accel (conf st))
              \<and> fs c' = fs (accel (conf st)) \<and> odr c' = odr (accel (conf st))
              \<and> filter_bw c' = filter_bw (accel (conf st))
              \<and> (reg_writes (new_events w w') = []
                 \<or> reg_writes (new_events w w') =
                     [(INV_ICM42670_REG_PWR_MGMT0 (h_regs h),
                       INV_ICM42600_PWR_MGMT0_GYRO (h_fields h) (mode (gyro (conf st)))
                       OR INV_ICM42600_PWR_MGMT0_ACCEL (h_fields h) (mode c'))])"
    by (simp add: set_accel_conf_mode_only [OF assms] p)
next
  let ?c = "sanitized (gyro (conf st)) conf_arg"
  obtain ret st3 sl w3 where p: "inv_icm42600_set_pwr_mgmt0 h st (mode ?c)
        (mode (accel (conf st))) (temp_en (conf st)) sleep_ms w = (ret, st3, sl, w3)"
    by (cases "inv_icm42600_set_pwr_mgmt0 h st (mode ?c)
        (mode (accel (conf st))) (temp_en (conf st)) sleep_ms w") auto
  have c: "fs ?c = fs (gyro (conf st))" "odr ?c = odr (gyro (conf st))"
    "filter_bw ?c = filter_bw (gyro (conf st))"
    using assms by (simp_all add: sanitized_def)
  from set_pwr_mgmt0_keeps_scale_rate_filter [OF p] set_pwr_mgmt0_writes [OF p] c
  show "case inv_icm42600_set_gyro_conf h st conf_arg sleep_ms w of
            (ret, st', c', sl, w') \<Rightarrow>
              fs (gyro (conf st')) = fs (gyro (conf st))
              \<and> odr (gyro (conf st')) = odr (gyro (conf st))
              \<and> filter_bw (gyro (conf st')) = filter_bw (gyro (conf st))
              \<and> fs c' = fs (gyro (conf st)) \<and> odr c' = odr (gyro (conf st))
              \<and> filter_bw c' = filter_bw (gyro (conf st))
              \<and> (reg_writes (new_events w w') = []
                 \<or> reg_writes (new_events w w') =
                     [(INV_ICM42670_REG_PWR_MGMT0 (h_regs h),
                       INV_ICM42600_PWR_MGMT0_GYRO (h_fields h) (mode c')
                       OR INV_ICM42600_PWR_MGMT0_ACCEL (h_fields h) (mode (accel (conf st))))])"
    by (simp add: set_gyro_conf_mode_only [OF assms] p)
qed


theorem mode_only_request_keeps_scale_rate_filter_witness:
  "(case inv_icm42600_set_accel_conf sample_h sample_st
           \<lparr>mode = 3, fs = - 1, odr = - 1, filter_bw = - 1\<rparr> (Some 0) sample_w of
      (ret, st', c', sl, w') \<Rightarrow>
        fs (accel (conf st')) = 0 \<and> odr (accel (conf st')) = 9
        \<and> filter_bw (accel (conf st')) = 0
        \<and> fs c' = 0 \<and> odr c' = 9 \<and> filter_bw c' = 0)
   \<and> (case inv_icm42600_set_gyro_conf sample_h sample_st
           \<lparr>mode = 3, fs = - 1, odr = - 1, filter_bw = - 1\<rparr> (Some 0) sample_w of
      (ret, st', c', sl, w') \<Rightarrow>
        fs (gyro (conf st')) = 0 \<and> odr (gyro (conf st')) = 9
        \<and> filter_bw (gyro (conf st')) = 0
        \<and> fs c' = 0 \<and> odr c' = 9 \<and> filter_bw c' = 0)"
proof -
  let ?c = "\<lparr>mode = 3, fs = - 1, odr = - 1, filter_bw = - 1\<rparr>"
  have "fs ?c < 0" "odr ?c < 0" "filter_bw ?c < 0"
    by simp_all
  from mode_only_request_keeps_scale_rate_filter
         [OF this, where h = sample_h and st = sample_st and sleep_ms = "Some 0" and w = sample_w]
  show ?thesis
    by (simp add: sample_defs split: prod.splits)
qed


text \<open>
  C10.  \<^verbatim>\<open>inv_icm42600_set_accel_conf\<close> and \<^verbatim>\<open>inv_icm42600_set_gyro_conf\<close> resolve the
  caller's structure in place: on every return path each field that was negative holds
  the stored value of that sensor and each other field is untouched; when the stored
  configuration has no negative field, as the data model requires, the structure has
  none left either.
\<close>

theorem conf_argument_resolved_in_place:
  "(case inv_icm42600_set_accel_conf h st conf_arg sleep_ms w of
      (ret, st', c', sl, w') \<Rightarrow>
        mode c' = (if mode conf_arg < 0 then mode (accel (conf st)) else mode conf_arg)
        \<and> fs c' = (if fs conf_arg < 0 then fs (accel (conf st)) else fs conf_arg)
        \<and> odr c' = (if odr conf_arg < 0 then odr (accel (conf st)) else odr conf_arg)
        \<and> filter_bw c' = (if filter_bw conf_arg < 0 then filter_bw (accel (conf st))
                           else filter_bw conf_arg)
        \<and> (sensor_conf_valid (accel (conf st)) \<longrightarrow> sensor_conf_valid c'))
   \<and> (case inv_icm42600_set_gyro_conf h st conf_arg sleep_ms w of
      (ret, st', c', sl, w') \<Rightarrow>
        mode c' = (if mode conf_arg < 0 then mode (gyro (conf st)) else mode conf_arg)
        \<and> fs c' = (if fs conf_arg < 0 then fs (gyro (conf st)) else fs conf_arg)
        \<and> odr c' = (if odr conf_arg < 0 then odr (gyro (conf st)) else odr conf_arg)
        \<and> filter_bw c' = (if filter_bw conf_arg < 0 then filter_bw (gyro (conf st))
                           else filter_bw conf_arg)
        \<and> (sensor_conf_valid (gyro (conf st)) \<longrightarrow> sensor_conf_valid c'))"
proof -
  obtain ret st' c' sl w' where
    a: "inv_icm42600_set_accel_conf h st conf_arg sleep_ms w = (ret, st', c', sl, w')"
    by (cases "inv_icm42600_set_accel_conf h st conf_arg sleep_ms w") auto
  obtain retg stg cg slg wg where
    g: "inv_icm42600_set_gyro_conf h st conf_arg sleep_ms w = (retg, stg, cg, slg, wg)"
    by (cases "inv_icm42600_set_gyro_conf h st conf_arg sleep_ms w") auto
  from set_accel_conf_resolved [OF a] set_gyro_conf_resolved [OF g]
  show ?thesis
    by (simp add: a g sanitized_fields sanitized_valid)
qed


theorem conf_argument_resolved_in_place_witness:
  "sensor_conf_valid (accel (conf sample_st)) \<and> sensor_conf_valid (gyro (conf sample_st))
   \<and> (case inv_icm42600_set_accel_conf sample_h sample_st
           \<lparr>mode = 3, fs = - 1, odr = 6, filter_bw = - 1\<rparr> (Some 0) sample_w of
      (ret, st', c', sl, w') \<Rightarrow> mode c' = 3 \<and> fs c' = 0 \<and> odr c' = 6 \<and> filter_bw c' = 0
         \<and> sensor_conf_valid c')
   \<and> (case inv_icm42600_set_gyro_conf sample_h sample_st
           \<lparr>mode = - 1, fs = 2, odr = - 1, filter_bw = 1\<rparr> (Some 0) sample_w of
      (ret, st', c', sl, w') \<Rightarrow> mode c' = 0 \<and> fs c' = 2 \<and> odr c' = 9 \<and> filter_bw c' = 1
         \<and> sensor_conf_valid c')"
proof -
  have v: "sensor_conf_valid (accel (conf sample_st))" "sensor_conf_valid (gyro (conf sample_st))"
    by (simp_all add: sensor_conf_valid_def sample_defs)
  from conf_argument_resolved_in_place
         [where h = sample_h and st = sample_st and sleep_ms = "Some 0" and w = sample_w
            and conf_arg = "\<lparr>mode = 3, fs = - 1, odr = 6, filter_bw = - 1\<rparr>"]
       conf_argument_resolved_in_place
         [where h = sample_h and st = sample_st and sleep_ms = "Some 0" and w = sample_w
            and conf_arg = "\<lparr>mode = - 1, fs = 2, odr = - 1, filter_bw = 1\<rparr>"]
       v
  show ?thesis
    by (simp add: sample_defs split: prod.splits)
qed

subsection \<open>Claims about bring-up\<close>

text \<open>
  C7.  When the identity register is read successfully and its value differs from the
  \<^verbatim>\<open>whoami\<close> of the configured chip, \<^verbatim>\<open>inv_icm42600_setup\<close> returns \<^verbatim>\<open>-ENODEV\<close> with the
  state untouched, and the world it leaves is the one the identity read left: the read is
  the only bus operation, so no register is written (no reset, no byte-order setting, no
  default configuration).
\<close>

theorem setup_whoami_mismatch_fails_closed:
  assumes "regmap_read w (INV_ICM42600_REG_WHOAMI (h_regs h)) = (0, val, w1)"
    and "val \<noteq> ucast (whoami (inv_icm42600_hw h (chip st)))"
  shows "inv_icm42600_setup h st w = (- ENODEV, st, w1)
         \<and> new_events w w1 = [RegRead (INV_ICM42600_REG_WHOAMI (h_regs h))]
         \<and> reg_writes (new_events w w1) = []"
  using assms
  by (simp add: inv_icm42600_setup_def Let_def new_events_append [OF regmap_read_trace])

theorem setup_whoami_mismatch_fails_closed_witness:
  "inv_icm42600_setup sample_h sample_st (sample_w\<lparr>bus_replies := [(0, [0x66])]\<rparr>)
     = (- 19, sample_st, sample_w\<lparr>trace := [RegRead 0x75]\<rparr>)"
proof -
  have rd: "regmap_read (sample_w\<lparr>bus_replies := [(0, [0x66])]\<rparr>)
              (INV_ICM42600_REG_WHOAMI (h_regs sample_h))
            = (0, 0x66, sample_w\<lparr>trace := [RegRead 0x75]\<rparr>)"
    by (simp add: sample_defs world_defs)
  have ne: "(0x66 :: u32) \<noteq> ucast (whoami (inv_icm42600_hw sample_h (chip sample_st)))"
    by (simp add: sample_defs)
  from setup_whoami_mismatch_fails_closed [OF rd ne]
  show ?thesis by (simp add: ENODEV_def)
qed

text \<open>
  C9.  \<^verbatim>\<open>inv_icm42600_set_conf\<close> is all-or-nothing on the stored configuration: it returns
  0 exactly when the three register writes (power mode, gyroscope scale/rate,
  accelerometer scale/rate) succeed, and then the stored configuration is the new one and
  the trace shows the three writes in that order; otherwise the state is exactly as
  before.  The incremental path differs: \<^verbatim>\<open>inv_icm42600_set_accel_conf\<close> whose second write
  fails returns the error with the full scale of the first write already stored.
\<close>

theorem set_conf_all_or_nothing:
  "(case inv_icm42600_set_conf h st conf_arg w of
      (ret, st', w') \<Rightarrow>
        (ret = 0 \<longleftrightarrow> list_all (\<lambda>r. fst r = 0) (take 3 (bus_replies w)))
        \<and> (if ret = 0
            then st' = st\<lparr>conf := conf_arg\<rparr>
              \<and> new_events w w' =
                  [RegWrite (INV_ICM42670_REG_PWR_MGMT0 (h_regs h))
                     (INV_ICM42600_PWR_MGMT0_GYRO (h_fields h) (mode (gyro conf_arg))
                      OR INV_ICM42600_PWR_MGMT0_ACCEL (h_fields h) (mode (accel conf_arg))),
                   RegWrite (INV_ICM42670_REG_GYRO_CONFIG0 (h_regs h))
                     (INV_ICM42670_GYRO_CONFIG0_FS (h_fields h) (fs (gyro conf_arg))
                      OR INV_ICM42670_GYRO_CONFIG0_ODR (h_fields h) (odr (gyro conf_arg))),
                   RegWrite (INV_ICM42670_REG_ACCEL_CONFIG0 (h_regs h))
                     (INV_ICM42670_ACCEL_CONFIG0_FS (h_fields h) (fs (accel conf_arg))
                      OR INV_ICM42670_ACCEL_CONFIG0_ODR (h_fields h) (odr (accel conf_arg)))]
            else st' = st))
   \<and> (case inv_icm42600_set_accel_conf h sample_st
              \<lparr>mode = - 1, fs = 1, odr = - 1, filter_bw = 1\<rparr> None
              (sample_w\<lparr>bus_replies := [(0, []), (- 5, [])]\<rparr>) of
        (ret, st', c', sl, w') \<Rightarrow>
          ret = - 5
          \<and> st' = sample_st\<lparr>conf := (conf sample_st)\<lparr>accel :=
                     (accel (conf sample_st))\<lparr>fs := 1\<rparr>\<rparr>\<rparr>)"
proof (rule conjI)
  obtain ret st' w' where run: "inv_icm42600_set_conf h st conf_arg w = (ret, st', w')"
    by (cases "inv_icm42600_set_conf h st conf_arg w") auto
  from set_conf_cases [OF run] set_conf_success_iff [OF run]
  show "case inv_icm42600_set_conf h st conf_arg w of
      (ret, st', w') \<Rightarrow>
        (ret = 0 \<longleftrightarrow> list_all (\<lambda>r. fst r = 0) (take 3 (bus_replies w)))
        \<and> (if ret = 0
            then st' = st\<lparr>conf := conf_arg\<rparr>
              \<and> new_events w w' =
                  [RegWrite (INV_ICM42670_REG_PWR_MGMT0 (h_regs h))
                     (INV_ICM42600_PWR_MGMT0_GYRO (h_fields h) (mode (gyro conf_arg))
                      OR INV_ICM42600_PWR_MGMT0_ACCEL (h_fields h) (mode (accel conf_arg))),
                   RegWrite (INV_ICM42670_REG_GYRO_CONFIG0 (h_regs h))
                     (INV_ICM42670_GYRO_CONFIG0_FS (h_fields h) (fs (gyro conf_arg))
                      OR INV_ICM42670_GYRO_CONFIG0_ODR (h_fields h) (odr (gyro conf_arg))),
                   RegWrite (INV_ICM42670_REG_ACCEL_CONFIG0 (h_regs h))
                     (INV_ICM42670_ACCEL_CONFIG0_FS (h_fields h) (fs (accel conf_arg))
                      OR INV_ICM42670_ACCEL_CONFIG0_ODR (h_fields h) (odr (accel conf_arg)))]
            else st' = st)"
    unfolding run by simp
next
  show "case inv_icm42600_set_accel_conf h sample_st
              \<lparr>mode = - 1, fs = 1, odr = - 1, filter_bw = 1\<rparr> None
              (sample_w\<lparr>bus_replies := [(0, []), (- 5, [])]\<rparr>) of
        (ret, st', c', sl, w') \<Rightarrow>
          ret = - 5
          \<and> st' = sample_st\<lparr>conf := (conf sample_st)\<lparr>accel :=
                     (accel (conf sample_st))\<lparr>fs := 1\<rparr>\<rparr>\<rparr>"
    by (simp add: inv_icm42600_set_accel_conf_def Let_def sample_defs world_defs)
qed

theorem set_conf_all_or_nothing_witness:
  "(case inv_icm42600_set_conf sample_h sample_st (inv_icm42670_default_conf sample_h)
           (sample_w\<lparr>bus_replies := [(0, []), (0, []), (- 5, [])]\<rparr>) of
      (ret, st', w') \<Rightarrow> ret \<noteq> 0 \<and> st' = sample_st)
   \<and> (case inv_icm42600_set_conf sample_h sample_st (inv_icm42670_default_conf sample_h)
           sample_w of
      (ret, st', w') \<Rightarrow> ret = 0
         \<and> st' = sample_st\<lparr>conf := inv_icm42670_default_conf sample_h\<rparr>
         \<and> new_events sample_w w' = [RegWrite 0x1F 0xF, RegWrite 0x20 8, RegWrite 0x21 8])"
  using set_conf_all_or_nothing
          [where h = sample_h and st = sample_st and w = sample_w
             and conf_arg = "inv_icm42670_default_conf sample_h"]
        set_conf_all_or_nothing
          [where h = sample_h and st = sample_st
             and w = "sample_w\<lparr>bus_replies := [(0, []), (0, []), (- 5, [])]\<rparr>"
             and conf_arg = "inv_icm42670_default_conf sample_h"]
  by (simp add: sample_h_def sample_w_def inv_icm42670_default_conf_def split: prod.splits)

subsection \<open>Claim about the interrupt\<close>

text \<open>
  C1.  For one interrupt, that is the primary handler followed by the thread: the primary
  handler reads the clock twice and latches the second reading in the accelerometer
  timestamp slot; everything the thread does comes after these two readings in the trace
  and starts with the read of the data-ready status; the thread reads no clock; and every
  scan it pushes carries the latched value as its timestamp.
\<close>

theorem irq_sample_timestamp_is_fast_phase_value:
  assumes fast: "inv_icm42600_irq_timestamp st w = (r1, st1, w1)"
    and deferred: "inv_icm42600_irq_handler h st1 w1 = (r2, st2, w2)"
  shows "irq_event h st w = (r2, st2, w2)
         \<and> (\<exists>t1 t2 evs.
               trace w1 = trace w @ [GetTimeNs t1, GetTimeNs t2]
               \<and> ts_accel (timestamp st1) = t2
               \<and> trace w2 = trace w1
                    @ RegRead (INV_ICM42670_REG_INT_STATUS_DRDY (h_regs h)) # evs
               \<and> (\<forall>e \<in> set evs. \<forall>t. e \<noteq> GetTimeNs t)
               \<and> (\<forall>s. PushToBuffers s \<in> set evs \<longrightarrow> ts s = t2))
         \<and> clock w2 = clock w1"
proof -
  from irq_timestamp_result [OF fast] obtain t1 t2 where
    r1: "r1 = IRQ_WAKE_THREAD"
    and tr1: "trace w1 = trace w @ [GetTimeNs t1, GetTimeNs t2]"
    and st1: "st1 = st\<lparr>timestamp := (timestamp st)\<lparr>ts_gyro := t1, ts_accel := t2\<rparr>\<rparr>"
    by blast
  from irq_handler_result [OF deferred] obtain evs where
    clk: "clock w2 = clock w1"
    and tr2: "trace w2 = trace w1 @ RegRead (INV_ICM42670_REG_INT_STATUS_DRDY (h_regs h)) # evs"
    and evs: "evs = []
              \<or> evs = [RegBulkRead (INV_ICM42670_REG_ACCEL_DATA_X (h_regs h)) 12]
              \<or> (\<exists>s. evs = [RegBulkRead (INV_ICM42670_REG_ACCEL_DATA_X (h_regs h)) 12,
                              PushToBuffers s]
                      \<and> ts s = ts_accel (timestamp st1))"
    by blast
  have ev: "irq_event h st w = (r2, st2, w2)"
    using fast deferred r1 by (simp add: irq_event_def)
  have slot: "ts_accel (timestamp st1) = t2"
    by (simp add: st1)
  from evs slot have no_clock: "\<forall>e \<in> set evs. \<forall>t. e \<noteq> GetTimeNs t"
    and pushed: "\<forall>s. PushToBuffers s \<in> set evs \<longrightarrow> ts s = t2"
    by auto
  from ev tr1 slot tr2 no_clock pushed clk show ?thesis
    by blast
qed

theorem irq_sample_timestamp_is_fast_phase_value_witness:
  "irq_event sample_h sample_st
     (sample_w\<lparr>bus_replies := [(0, [1]), (0, [1, 0, 2, 0, 3, 0, 4, 0, 5, 0, 6, 0])],
               clock := [100, 101, 102]\<rparr>)
   = (IRQ_HANDLED,
      sample_st\<lparr>timestamp := \<lparr>ts_gyro = 100, ts_accel = 101\<rparr>\<rparr>,
      sample_w\<lparr>trace := [GetTimeNs 100, GetTimeNs 101, RegRead 0x39, RegBulkRead 0x0B 12,
                          PushToBuffers \<lparr>channels = [1, 2, 3, 4, 5, 6], ts = 101\<rparr>],
               clock := [102]\<rparr>)"
proof -
  let ?w = "sample_w\<lparr>bus_replies := [(0, [1]), (0, [1, 0, 2, 0, 3, 0, 4, 0, 5, 0, 6, 0])],
               clock := [100, 101, 102]\<rparr>"
  let ?st1 = "sample_st\<lparr>timestamp := \<lparr>ts_gyro = 100, ts_accel = 101\<rparr>\<rparr>"
  let ?w1 = "sample_w\<lparr>trace := [GetTimeNs 100, GetTimeNs 101],
               bus_replies := [(0, [1]), (0, [1, 0, 2, 0, 3, 0, 4, 0, 5, 0, 6, 0])],
               clock := [102]\<rparr>"
  let ?w2 = "sample_w\<lparr>trace := [GetTimeNs 100, GetTimeNs 101, RegRead 0x39, RegBulkRead 0x0B 12,
                          PushToBuffers \<lparr>channels = [1, 2, 3, 4, 5, 6], ts = 101\<rparr>],
               clock := [102]\<rparr>"
  have fast: "inv_icm42600_irq_timestamp sample_st ?w = (IRQ_WAKE_THREAD, ?st1, ?w1)"
    by (simp add: inv_icm42600_irq_timestamp_def iio_get_time_ns_def Let_def emit_def
          sample_st_def sample_w_def)
  have deferred: "inv_icm42600_irq_handler sample_h ?st1 ?w1 = (IRQ_HANDLED, ?st1, ?w2)"
    by (simp add: inv_icm42600_irq_handler_def Let_def sample_defs world_defs sample16_def
          iio_buffer_enabled_def iio_push_to_buffers_def)
  from irq_sample_timestamp_is_fast_phase_value [OF fast deferred]
  show ?thesis by simp
qed

subsection \<open>Claim about suspend and resume\<close>

text \<open>
  C8.  When every hardware operation succeeds, \<^verbatim>\<open>inv_icm42600_suspend\<close> followed by
  \<^verbatim>\<open>inv_icm42600_resume\<close> on the state it left both return 0 and leave the stored
  configuration (both sensor configurations and the temperature flag) and the FIFO flag
  exactly as they were before the suspend; when the FIFO was streaming, the last thing
  resume does is to write the stream mode to the FIFO configuration register.
\<close>

theorem suspend_resume_round_trip:
  assumes ok: "all_ok w" and ok2: "all_ok w2"
  shows "case inv_icm42600_suspend h st w of
           (r1, st1, w1) \<Rightarrow>
             (case inv_icm42600_resume h st1 w2 of
                (r2, st2, w3) \<Rightarrow>
                  r1 = 0 \<and> r2 = 0 \<and> all_ok w1
                  \<and> conf st2 = conf st \<and> fifo_on st2 = fifo_on st
                  \<and> (fifo_on st \<longrightarrow>
                       last (trace w3) = RegWrite (INV_ICM42600_REG_FIFO_CONFIG (h_regs h))
                                           (INV_ICM42600_FIFO_CONFIG_STREAM (h_fields h))))"
proof -
  obtain r1 st1 w1 where s: "inv_icm42600_suspend h st w = (r1, st1, w1)"
    by (cases "inv_icm42600_suspend h st w") auto
  obtain r2 st2 w3 where r: "inv_icm42600_resume h st1 w2 = (r2, st2, w3)"
    by (cases "inv_icm42600_resume h st1 w2") auto
  from suspend_ok [OF ok s] have r1: "r1 = 0" and ok1: "all_ok w1"
    by simp_all
  from suspend_success_state [OF s [unfolded r1]] obtain g a t where
    st1: "st1 = st\<lparr>suspended := (suspended st)\<lparr>sus_gyro := mode (gyro (conf st)),
                            sus_accel := mode (accel (conf st)), sus_temp := temp_en (conf st)\<rparr>,
                        conf := (conf st)\<lparr>gyro := (gyro (conf st))\<lparr>mode := g\<rparr>,
                                   accel := (accel (conf st))\<lparr>mode := a\<rparr>, temp_en := t\<rparr>\<rparr>"
    by blast
  from resume_result [OF r] ok2 have r2: "r2 = 0"
    and st2: "st2 = st1\<lparr>conf := (conf st1)\<lparr>
                      gyro := (gyro (conf st1))\<lparr>mode := sus_gyro (suspended st1)\<rparr>,
                      accel := (accel (conf st1))\<lparr>mode := sus_accel (suspended st1)\<rparr>,
                      temp_en := sus_temp (suspended st1)\<rparr>\<rparr>"
    and fifo: "fifo_on st1 \<longrightarrow>
                 last (trace w3) = RegWrite (INV_ICM42600_REG_FIFO_CONFIG (h_regs h))
                                     (INV_ICM42600_FIFO_CONFIG_STREAM (h_fields h))"
    by simp_all
  have c: "conf st2 = conf st"
    by (simp add: st2 st1)
  have f: "fifo_on st2 = fifo_on st" "fifo_on st1 = fifo_on st"
    by (simp_all add: st2 st1)
  from r1 r2 ok1 c f fifo show ?thesis
    by (simp add: s r)
qed

theorem suspend_resume_round_trip_witness:
  "all_ok sample_w
   \<and> (case inv_icm42600_suspend sample_h
              (sample_st\<lparr>conf := \<lparr>gyro = \<lparr>mode = 3, fs = 0, odr = 9, filter_bw = 0\<rparr>,
                                   accel = \<lparr>mode = 2, fs = 1, odr = 8, filter_bw = 0\<rparr>,
                                   temp_en = True\<rparr>,
                         fifo_on := True\<rparr>) sample_w of
         (r1, st1, w1) \<Rightarrow>
           mode (gyro (conf st1)) = 0 \<and> mode (accel (conf st1)) = 0 \<and> \<not> temp_en (conf st1)
           \<and> (case inv_icm42600_resume sample_h st1 sample_w of
                 (r2, st2, w3) \<Rightarrow>
                   r1 = 0 \<and> r2 = 0
                   \<and> conf st2 = \<lparr>gyro = \<lparr>mode = 3, fs = 0, odr = 9, filter_bw = 0\<rparr>,
                                  accel = \<lparr>mode = 2, fs = 1, odr = 8, filter_bw = 0\<rparr>,
                                  temp_en = True\<rparr>
                   \<and> fifo_on st2
                   \<and> last (trace w3) = RegWrite 0x16 0x40))"
proof -
  have ok: "all_ok sample_w"
    by (simp add: all_ok_def sample_w_def)
  from suspend_resume_round_trip [OF ok ok, where h = sample_h
         and st = "sample_st\<lparr>conf := \<lparr>gyro = \<lparr>mode = 3, fs = 0, odr = 9, filter_bw = 0\<rparr>,
                                   accel = \<lparr>mode = 2, fs = 1, odr = 8, filter_bw = 0\<rparr>,
                                   temp_en = True\<rparr>,
                         fifo_on := True\<rparr>"] ok
  show ?thesis
    by (simp add: inv_icm42600_suspend_def inv_icm42600_resume_def
          inv_icm42600_set_pwr_mgmt0_def inv_icm42600_enable_regulator_vddio_def
          regulator_enable_def regulator_disable_def pm_runtime_suspended_def
          pm_runtime_enable_def pm_runtime_disable_def pm_runtime_set_active_def
          Let_def sample_defs world_defs)
qed

end
